theory Spec2Isabelle
  imports Main "HOL-Library.Sublist"
begin

section \<open>Calendar dates and the persistent key-value store\<close>

text \<open>
  The scripts obtain calendar dates as \<^verbatim>\<open>new Date().toISOString().split('T')[0]\<close>
  and compare them as strings.  A well-formed ISO date is represented by its day number
  (days since 1970-01-01, UTC); string equality of two ISO dates is equality of day
  numbers.  The clock is an input: a reading is a number of milliseconds since the
  epoch.  Stored counters are integers below \<open>2^53\<close>, on which the arithmetic of
  the scripts is exact.

  \<^verbatim>\<open>d.setDate(d.getDate() - n)\<close> works on the local calendar: it keeps the local
  time of day and goes back \<open>n\<close> local days.  The instant it gives is
  \<open>n\<close> days of 24 hours back, plus the change of the local UTC offset between the
  two local times (the offset now minus the offset in force at the resulting local
  time): zero in a zone with a fixed offset, an hour more or less across a
  daylight-saving change.  That change is the input \<open>shift\<close> of
  \<open>setDate_back\<close>.  The streak update takes it as an argument; the update of the
  daily buckets, whose cut-off lies 365 days back, is modelled with a zero shift.
\<close>

type_synonym day = int

definition ms_per_day :: int where
  "ms_per_day = 86400000"

definition utc_day :: "int \<Rightarrow> day" where
  "utc_day now = now div ms_per_day"

definition setDate_back :: "int \<Rightarrow> int \<Rightarrow> int \<Rightarrow> int" where
  \<comment> \<open>the instant after \<^verbatim>\<open>setDate(getDate() - n)\<close> on the instant \<open>now\<close>\<close>
  "setDate_back n shift now = now - n * ms_per_day + shift"

definition day_start :: "day \<Rightarrow> int" where
  \<comment> \<open>\<^verbatim>\<open>new Date("YYYY-MM-DD")\<close>: midnight UTC of that date, in milliseconds\<close>
  "day_start d = d * ms_per_day"

definition iso_day :: "int \<Rightarrow> int \<Rightarrow> int \<Rightarrow> day" where
  \<comment> \<open>day number of the proleptic Gregorian date \<open>y-m-d\<close>\<close>
  "iso_day y m d =
     (let y' = (if m \<le> 2 then y - 1 else y);
          era = y' div 400;
          yoe = y' - era * 400;
          mp = (m + 9) mod 12;
          doy = (153 * mp + 2) div 5 + d - 1;
          doe = yoe * 365 + yoe div 4 - yoe div 100 + doy
      in era * 146097 + doe - 719468)"

datatype difficulty = Easy | Medium | Hard

record DailySubmissionData =
  date :: day
  submissions :: int
  problems :: "difficulty \<Rightarrow> int"

record SubmissionData =
  platform :: string
  problemId :: string
  code :: string
  language :: string
  difficulty :: "difficulty option"
  title :: "string option"

record DailyData =
  dd_date :: day
  solved :: int
  dd_difficulty :: string

text \<open>
  \<^verbatim>\<open>chrome.storage.local\<close>: every key may be absent (\<open>None\<close> is \<^verbatim>\<open>undefined\<close>).
  The keys are those the background script, the streak module and the popup write.
\<close>

record storage =
  streak :: "int option"
  lastPushDate :: "day option"
  longestStreak :: "int option"
  unlockedAchievements :: "string list option"
  dailySubmissions :: "DailySubmissionData list option"
  totalSolved :: "int option"
  easy :: "int option"
  medium :: "int option"
  hard :: "int option"
  lastSubmissionDate :: "day option"
  lastUpdated :: "int option"
  dailyData :: "DailyData list option"

definition empty_storage :: storage where
  "empty_storage =
     \<lparr>streak = None, lastPushDate = None, longestStreak = None,
      unlockedAchievements = None, dailySubmissions = None, totalSolved = None,
      easy = None, medium = None, hard = None, lastSubmissionDate = None,
      lastUpdated = None, dailyData = None\<rparr>"

definition or0 :: "int option \<Rightarrow> int" where
  \<comment> \<open>\<^verbatim>\<open>x || 0\<close> on a stored number\<close>
  "or0 x = (case x of None \<Rightarrow> 0 | Some v \<Rightarrow> v)"

section \<open>Streak and achievements (utils/streak.ts)\<close>

record Achievement =
  ach_id :: string
  ach_title :: string
  condition :: "int \<Rightarrow> bool"

definition achievements :: "Achievement list" where
  "achievements =
     [\<lparr>ach_id = ''streak-7'', ach_title = ''1 Week Streak'', condition = (\<lambda>s. s \<ge> 7)\<rparr>,
      \<lparr>ach_id = ''streak-30'', ach_title = ''1 Month Streak'', condition = (\<lambda>s. s \<ge> 30)\<rparr>,
      \<lparr>ach_id = ''streak-50'', ach_title = ''50 Day Streak'', condition = (\<lambda>s. s \<ge> 50)\<rparr>,
      \<lparr>ach_id = ''streak-100'', ach_title = ''Century Streak'', condition = (\<lambda>s. s \<ge> 100)\<rparr>]"

fun set_add :: "string list \<Rightarrow> string \<Rightarrow> string list" where
  \<comment> \<open>\<^verbatim>\<open>Set.prototype.add\<close> on a set kept in insertion order\<close>
  "set_add xs x = (if x \<in> set xs then xs else xs @ [x])"

definition new_Set :: "string list \<Rightarrow> string list" where
  \<comment> \<open>\<^verbatim>\<open>new Set(array)\<close>\<close>
  "new_Set xs = foldl set_add [] xs"

fun check_loop ::
  "Achievement list \<Rightarrow> int \<Rightarrow> string list \<Rightarrow> Achievement list
     \<Rightarrow> string list \<times> Achievement list" where
  "check_loop [] currentStreak unlocked newAchievements = (unlocked, newAchievements)"
| "check_loop (a # as) currentStreak unlocked newAchievements =
     (if ach_id a \<notin> set unlocked \<and> condition a currentStreak
      then check_loop as currentStreak (set_add unlocked (ach_id a)) (newAchievements @ [a])
      else check_loop as currentStreak unlocked newAchievements)"

definition checkAchievements :: "int \<Rightarrow> storage \<Rightarrow> Achievement list \<times> storage" where
  "checkAchievements currentStreak data =
     (let unlocked0 = new_Set (case unlockedAchievements data of None \<Rightarrow> [] | Some xs \<Rightarrow> xs);
          (unlocked, newAchievements) = check_loop achievements currentStreak unlocked0 []
      in if length newAchievements > 0
         then (newAchievements, data\<lparr>unlockedAchievements := Some unlocked\<rparr>)
         else (newAchievements, data))"

text \<open>
  \<open>updateStreak\<close> reads the clock twice, for \<open>today\<close> and for
  \<open>yesterday\<close>; both readings are the one instant \<open>now\<close>.  \<open>today\<close> is
  its UTC date; \<open>yesterday\<close> is moved back one local day by \<^verbatim>\<open>setDate\<close> and
  \<open>yesterdayStr\<close> is the UTC date of the instant that gives.
\<close>

definition updateStreak ::
  "int \<Rightarrow> int \<Rightarrow> storage \<Rightarrow> (int \<times> Achievement list) \<times> storage" where
  "updateStreak now shift data =
     (let today = utc_day now in
      if lastPushDate data = Some today then ((or0 (streak data), []), data)
      else
        let yesterday = setDate_back 1 shift now;
            yesterdayStr = utc_day yesterday;
            newStreak =
              (case lastPushDate data of
                 None \<Rightarrow> 1
               | Some l \<Rightarrow> if l = yesterdayStr then or0 (streak data) + 1 else 1);
            longest = max newStreak (or0 (longestStreak data));
            data' = data\<lparr>streak := Some newStreak, lastPushDate := Some today,
                          longestStreak := Some longest\<rparr>;
            (newAchievements, data'') = checkAchievements newStreak data'
        in ((newStreak, newAchievements), data''))"



definition unlocked_set :: "storage \<Rightarrow> string set" where
  "unlocked_set data = (case unlockedAchievements data of None \<Rightarrow> {} | Some xs \<Rightarrow> set xs)"

fun achievement_runs :: "storage \<Rightarrow> int list \<Rightarrow> string list list" where
  \<comment> \<open>the ids reported by successive calls of \<open>checkAchievements\<close>\<close>
  "achievement_runs s [] = []"
| "achievement_runs s (k # ks) =
     (let (new, s') = checkAchievements k s in map ach_id new # achievement_runs s' ks)"


definition day_store :: "day \<Rightarrow> int \<Rightarrow> int \<Rightarrow> storage" where
  \<comment> \<open>a store holding only the three streak keys\<close>
  "day_store l k m =
     empty_storage\<lparr>streak := Some k, lastPushDate := Some l, longestStreak := Some m\<rparr>"

subsection \<open>The popup's manual boost (popup/App.tsx)\<close>


definition fall_back_evening :: int where
  \<comment> \<open>2025-11-03T00:30Z: 19:30 on 2 November in New York, the evening after the clocks
      went back\<close>
  "fall_back_evening = day_start (iso_day 2025 11 3) + 1800000"

definition fall_back_shift :: int where
  \<comment> \<open>offset now (5 hours behind UTC) minus offset a local day earlier (4 hours behind)\<close>
  "fall_back_shift = - 3600000"

section \<open>Daily submission buckets (background.ts)\<close>

text \<open>
  \<open>updateDailySubmissions\<close> reads the clock for \<open>today\<close> and again for
  \<open>oneYearAgo\<close>; both readings are the one instant \<open>now\<close>.  The bucket found for
  today is an element of the stored array and is mutated in place, so the update shows in
  the array that is filtered and written back.
\<close>

definition new_bucket :: "day \<Rightarrow> DailySubmissionData" where
  "new_bucket today = \<lparr>date = today, submissions = 0, problems = (\<lambda>_. 0)\<rparr>"

fun update_first :: "('a \<Rightarrow> bool) \<Rightarrow> ('a \<Rightarrow> 'a) \<Rightarrow> 'a list \<Rightarrow> 'a list" where
  \<comment> \<open>mutate the element that \<^verbatim>\<open>Array.prototype.find\<close> returns\<close>
  "update_first P f [] = []"
| "update_first P f (x # xs) = (if P x then f x # xs else x # update_first P f xs)"

definition bump_bucket :: "difficulty option \<Rightarrow> DailySubmissionData \<Rightarrow> DailySubmissionData" where
  "bump_bucket diff todayData =
     (let b = todayData\<lparr>submissions := submissions todayData + 1\<rparr>
      in case diff of
           None \<Rightarrow> b
         | Some k \<Rightarrow> b\<lparr>problems := (problems b)(k := problems b k + 1)\<rparr>)"

definition buckets :: "storage \<Rightarrow> DailySubmissionData list" where
  \<comment> \<open>\<^verbatim>\<open>result.dailySubmissions || []\<close>\<close>
  "buckets result = (case dailySubmissions result of None \<Rightarrow> [] | Some xs \<Rightarrow> xs)"

definition updateDailySubmissions :: "int \<Rightarrow> SubmissionData \<Rightarrow> storage \<Rightarrow> storage" where
  "updateDailySubmissions now data result =
     (let today = utc_day now;
          dailySubmissions0 = buckets result;
          dailySubmissions1 =
            (case find (\<lambda>d. date d = today) dailySubmissions0 of
               None \<Rightarrow> dailySubmissions0 @ [new_bucket today]
             | Some _ \<Rightarrow> dailySubmissions0);
          dailySubmissions2 =
            update_first (\<lambda>d. date d = today) (bump_bucket (difficulty data)) dailySubmissions1;
          totalSolved' = or0 (totalSolved result) + 1;
          easy' = or0 (easy result) + (if difficulty data = Some Easy then 1 else 0);
          medium' = or0 (medium result) + (if difficulty data = Some Medium then 1 else 0);
          hard' = or0 (hard result) + (if difficulty data = Some Hard then 1 else 0);
          oneYearAgo = now - 365 * ms_per_day;
          filteredSubmissions =
            filter (\<lambda>d. day_start (date d) \<ge> oneYearAgo) dailySubmissions2
      in result\<lparr>dailySubmissions := Some filteredSubmissions,
                totalSolved := Some totalSolved',
                easy := Some easy', medium := Some medium', hard := Some hard',
                lastSubmissionDate := Some today\<rparr>)"

definition a_submission :: "difficulty option \<Rightarrow> SubmissionData" where
  \<comment> \<open>a sample record with the given difficulty\<close>
  "a_submission diff =
     \<lparr>platform = ''leetcode'', problemId = ''two-sum'', code = ''return 0'',
      language = ''python'', difficulty = diff, title = None\<rparr>"


definition old_store :: storage where
  "old_store = empty_storage\<lparr>dailySubmissions :=
      Some [\<lparr>date = iso_day 2024 1 1, submissions = 4, problems = (\<lambda>_. 1)\<rparr>,
            \<lparr>date = iso_day 2025 3 1, submissions = 2, problems = (\<lambda>_. 0)\<rparr>]\<rparr>"


section \<open>Strings and slugs (content script, utils/github.ts)\<close>

text \<open>
  A string is a list of characters with code points below 256.  On these
  \<^verbatim>\<open>toLowerCase\<close> maps \<open>A\<close>--\<open>Z\<close> and the Latin-1 capitals (192--222 except
  215) to the code point 32 above and leaves every other character alone.
\<close>

definition toLowerCase_char :: "char \<Rightarrow> char" where
  "toLowerCase_char c =
     (let n = (of_char c :: nat)
      in if (65 \<le> n \<and> n \<le> 90) \<or> (192 \<le> n \<and> n \<le> 222 \<and> n \<noteq> 215)
         then char_of (n + 32) else c)"

definition toLowerCase :: "string \<Rightarrow> string" where
  "toLowerCase s = map toLowerCase_char s"

definition is_alnum :: "char \<Rightarrow> bool" where
  \<comment> \<open>the class \<^verbatim>\<open>[a-z0-9]\<close>\<close>
  "is_alnum c =
     (let n = (of_char c :: nat) in (97 \<le> n \<and> n \<le> 122) \<or> (48 \<le> n \<and> n \<le> 57))"

definition is_file_char :: "char \<Rightarrow> bool" where
  \<comment> \<open>the class \<^verbatim>\<open>[a-z0-9-_]\<close>: after the range \<^verbatim>\<open>0-9\<close> the hyphen and the
      underscore are literal\<close>
  "is_file_char c = (is_alnum c \<or> c = CHR ''-'' \<or> c = CHR ''_'')"

definition is_hyphen :: "char \<Rightarrow> bool" where
  "is_hyphen c = (c = CHR ''-'')"

definition replace_each :: "(char \<Rightarrow> bool) \<Rightarrow> char \<Rightarrow> string \<Rightarrow> string" where
  \<comment> \<open>\<^verbatim>\<open>s.replace(/[class]/g, r)\<close>: every matching character, one by one\<close>
  "replace_each P r s = map (\<lambda>c. if P c then r else c) s"

function replace_runs :: "(char \<Rightarrow> bool) \<Rightarrow> string \<Rightarrow> string \<Rightarrow> string" where
  \<comment> \<open>\<^verbatim>\<open>s.replace(/[class]+/g, r)\<close>: every maximal run of matching characters\<close>
  "replace_runs P r [] = []"
| "replace_runs P r (c # cs) =
     (if P c then r @ replace_runs P r (dropWhile P cs) else c # replace_runs P r cs)"
  by pat_completeness auto
termination
  by (relation "measure (\<lambda>(P, r, s). length s)") (auto simp: le_imp_less_Suc length_dropWhile_le)

definition trim_hyphens :: "string \<Rightarrow> string" where
  \<comment> \<open>\<^verbatim>\<open>s.replace(/^-+|-+$/g, '')\<close>\<close>
  "trim_hyphens s = rev (dropWhile is_hyphen (rev (dropWhile is_hyphen s)))"

definition trim_one_hyphen :: "string \<Rightarrow> string" where
  \<comment> \<open>\<^verbatim>\<open>s.replace(/^-|-$/g, '')\<close>: one hyphen at the start, then one at the end of
      what is left\<close>
  "trim_one_hyphen s =
     (let s1 = (case s of [] \<Rightarrow> [] | c # cs \<Rightarrow> if c = CHR ''-'' then cs else s)
      in if s1 \<noteq> [] \<and> last s1 = CHR ''-'' then butlast s1 else s1)"

definition sanitizeFileName :: "string \<Rightarrow> string" where
  "sanitizeFileName name =
     trim_one_hyphen
       (replace_runs is_hyphen ''-''
          (replace_each (\<lambda>c. \<not> is_file_char c) (CHR ''-'') (toLowerCase name)))"

definition slugify :: "string \<Rightarrow> string" where
  \<comment> \<open>the expression \<^verbatim>\<open>t.toLowerCase().replace(/[^a-z0-9]+/g, '-').replace(/^-+|-+$/g, '')\<close>
      of the problem-id extractors\<close>
  "slugify t = trim_hyphens (replace_runs (\<lambda>c. \<not> is_alnum c) ''-'' (toLowerCase t))"

definition slug_rule :: "(char \<Rightarrow> bool) \<Rightarrow> string \<Rightarrow> string" where
  \<comment> \<open>The slugification rule in the specification's words, for a given class of kept
      characters: lower-case, replace every run of characters outside the class with a
      single hyphen, trim leading and trailing hyphens.\<close>
  "slug_rule keep s =
     (let lowered = toLowerCase s;
          hyphenated = replace_runs (\<lambda>c. \<not> keep c) ''-'' lowered
      in rev (dropWhile (\<lambda>c. c = CHR ''-'') (rev (dropWhile (\<lambda>c. c = CHR ''-'') hyphenated))))"

definition is_alnum_or_underscore :: "char \<Rightarrow> bool" where
  \<comment> \<open>the class \<^verbatim>\<open>[a-z0-9_]\<close>\<close>
  "is_alnum_or_underscore c = (is_alnum c \<or> c = CHR ''_'')"

definition no_double_hyphen :: "string \<Rightarrow> bool" where
  \<comment> \<open>no two hyphens side by side\<close>
  "no_double_hyphen s = successively (\<lambda>a b. \<not> (a = CHR ''-'' \<and> b = CHR ''-'')) s"


fun includes_str :: "string \<Rightarrow> string \<Rightarrow> bool" where
  \<comment> \<open>\<^verbatim>\<open>s.includes(sub)\<close>\<close>
  "includes_str [] sub = (sub = [])"
| "includes_str (c # cs) sub = (prefix sub (c # cs) \<or> includes_str cs sub)"

definition detectPlatform :: "string \<Rightarrow> string" where
  "detectPlatform host =
     (if includes_str host ''leetcode'' then ''leetcode''
      else if includes_str host ''codeforces'' then ''codeforces''
      else if includes_str host ''codechef'' then ''codechef''
      else ''unknown'')"

section \<open>Repository client (utils/github.ts)\<close>

subsection \<open>Errors\<close>

text \<open>
  What the transport (Octokit) throws is an \<^verbatim>\<open>Error\<close> object, possibly with a
  \<^verbatim>\<open>status\<close> property and a \<^verbatim>\<open>response\<close> object, or some other value.  What the
  client throws is either such a raw value or its own \<^verbatim>\<open>GitHubError\<close>, which has a
  code and no \<^verbatim>\<open>status\<close> and no \<^verbatim>\<open>response\<close> property.
\<close>

record response =
  data_message :: "string option"
  response_status :: "nat option"

datatype js_error =
    ErrorObject (error_message: string) (error_status: "nat option")
      (error_response: "response option")
  | NonError

datatype thrown =
    GitHubError (err_message: string) (err_code: string)
  | Raw js_error

definition has_status :: "js_error \<Rightarrow> nat \<Rightarrow> bool" where
  \<comment> \<open>\<^verbatim>\<open>error instanceof Error && 'status' in error && error.status === n\<close>\<close>
  "has_status e n = (case e of ErrorObject _ st _ \<Rightarrow> st = Some n | NonError \<Rightarrow> False)"

definition thrown_has_status :: "thrown \<Rightarrow> nat \<Rightarrow> bool" where
  "thrown_has_status e n = (case e of GitHubError _ _ \<Rightarrow> False | Raw j \<Rightarrow> has_status j n)"

definition status_code :: "nat option \<Rightarrow> string" where
  \<comment> \<open>the \<^verbatim>\<open>switch (response.status)\<close> of \<open>handleGitHubError\<close>\<close>
  "status_code st =
     (case st of
        None \<Rightarrow> ''UNKNOWN_ERROR''
      | Some n \<Rightarrow>
          if n = 401 then ''UNAUTHORIZED''
          else if n = 403 then ''FORBIDDEN''
          else if n = 404 then ''NOT_FOUND''
          else if n = 422 then ''VALIDATION_FAILED''
          else ''UNKNOWN_ERROR'')"

fun handleGitHubError :: "thrown \<Rightarrow> thrown" where
  "handleGitHubError (GitHubError m c) = GitHubError m c"
| "handleGitHubError (Raw NonError) = GitHubError ''Unknown GitHub error'' ''UNKNOWN_ERROR''"
| "handleGitHubError (Raw (ErrorObject msg st resp)) =
     (case resp of
        None \<Rightarrow> GitHubError msg ''UNKNOWN_ERROR''
      | Some r \<Rightarrow>
          GitHubError
            (case data_message r of None \<Rightarrow> msg | Some m \<Rightarrow> if m = [] then msg else m)
            (status_code (response_status r)))"

subsection \<open>Transport\<close>

text \<open>
  The remote API is a parameter: a record of the four endpoints the client calls, over a
  remote state of any type.  Each call returns the response data or the thrown value,
  and the next remote state.  The file payload is the text itself; its text-safe
  encoding and the decoding on the remote side are not modelled.  A service object
  holds the owner and the repository name; its transport is always present once the
  constructor has returned, so the guard \<^verbatim>\<open>if (!this.octokit)\<close> of the setup
  operations (code \<open>INIT_ERROR\<close>) never fires and has no branch here.
\<close>

record repo_data =
  owner_login :: "string option"
  repo_name :: string
  html_url :: string
  permissions_push :: "bool option"

datatype content_data = FileData (sha: string) | Listing

record 'r octokit =
  createForAuthenticatedUser ::
    "string \<Rightarrow> bool \<Rightarrow> string \<Rightarrow> 'r \<Rightarrow> (js_error + repo_data option) \<times> 'r"
  repos_get :: "string \<Rightarrow> string \<Rightarrow> 'r \<Rightarrow> (js_error + repo_data option) \<times> 'r"
  getContent :: "string \<Rightarrow> string \<Rightarrow> string \<Rightarrow> 'r \<Rightarrow> (js_error + content_data) \<times> 'r"
  createOrUpdateFileContents ::
    "string \<Rightarrow> string \<Rightarrow> string \<Rightarrow> string \<Rightarrow> string \<Rightarrow> string option \<Rightarrow> 'r
       \<Rightarrow> (js_error + unit) \<times> 'r"

record GitHubConfig =
  token :: string
  cfg_owner :: string
  cfg_repo :: string

record service =
  owner :: string
  repo :: string

definition new_GitHubService :: "GitHubConfig \<Rightarrow> thrown + service" where
  "new_GitHubService cfg =
     (if token cfg = [] then Inl (GitHubError ''Authentication token is required'' ''AUTH_REQUIRED'')
      else Inr \<lparr>owner = cfg_owner cfg, repo = cfg_repo cfg\<rparr>)"

subsection \<open>Paths\<close>

definition getFileExtension :: "string \<Rightarrow> string" where
  \<comment> \<open>\<^verbatim>\<open>langMap[language.toLowerCase()] || 'txt'\<close>.  The table is an object literal, so
      the two all-lower-case keys inherited from \<^verbatim>\<open>Object.prototype\<close> are found as
      well and rendered by the template string.\<close>
  "getFileExtension lang =
     (let l = toLowerCase lang in
      if l = ''javascript'' then ''js''
      else if l = ''typescript'' then ''ts''
      else if l = ''python'' then ''py''
      else if l = ''java'' then ''java''
      else if l = ''cpp'' then ''cpp''
      else if l = ''c++'' then ''cpp''
      else if l = ''ruby'' then ''rb''
      else if l = ''golang'' then ''go''
      else if l = ''rust'' then ''rs''
      else if l = ''constructor'' then ''function Object() { [native code] }''
      else if l = ''__proto__'' then ''[object Object]''
      else ''txt'')"

definition getFilePath :: "string \<Rightarrow> string \<Rightarrow> string \<Rightarrow> thrown + string" where
  "getFilePath plat pid lang =
     (let ext = getFileExtension lang;
          sanitizedProblemId = sanitizeFileName pid;
          p = toLowerCase plat
      in if p = ''leetcode'' then Inr (''leetcode/'' @ sanitizedProblemId @ ''.'' @ ext)
         else if p = ''codeforces'' then Inr (''codeforces/'' @ sanitizedProblemId @ ''.'' @ ext)
         else if p = ''codechef'' then Inr (''codechef/'' @ sanitizedProblemId @ ''.'' @ ext)
         else Inl (GitHubError (''Unsupported platform: '' @ plat) ''INVALID_PLATFORM''))"

definition generateCommitMessage :: "string \<Rightarrow> string \<Rightarrow> bool \<Rightarrow> string" where
  "generateCommitMessage plat pid isUpdate =
     (if isUpdate then ''Update'' else ''Add'') @ '' '' @ plat @ '' solution: '' @ pid"

subsection \<open>File operations\<close>

definition checkFileExists ::
  "'r octokit \<Rightarrow> service \<Rightarrow> string \<Rightarrow> 'r \<Rightarrow> (thrown + bool) \<times> 'r" where
  "checkFileExists octo svc path r =
     (case getContent octo (owner svc) (repo svc) path r of
        (Inr _, r') \<Rightarrow> (Inr True, r')
      | (Inl e, r') \<Rightarrow>
          if has_status e 404 then (Inr False, r')
          else (Inl (handleGitHubError (Raw e)), r'))"

definition createFile ::
  "'r octokit \<Rightarrow> service \<Rightarrow> string \<Rightarrow> string \<Rightarrow> string \<Rightarrow> 'r \<Rightarrow> (thrown + unit) \<times> 'r" where
  "createFile octo svc path content message r =
     (case createOrUpdateFileContents octo (owner svc) (repo svc) path message content None r of
        (Inr _, r') \<Rightarrow> (Inr (), r')
      | (Inl e, r') \<Rightarrow> (Inl (handleGitHubError (Raw e)), r'))"

definition updateFile ::
  "'r octokit \<Rightarrow> service \<Rightarrow> string \<Rightarrow> string \<Rightarrow> string \<Rightarrow> 'r \<Rightarrow> (thrown + unit) \<times> 'r" where
  "updateFile octo svc path content message r =
     (case getContent octo (owner svc) (repo svc) path r of
        (Inl e, r') \<Rightarrow> (Inl (handleGitHubError (Raw e)), r')
      | (Inr Listing, r') \<Rightarrow>
          (Inl (handleGitHubError
                 (GitHubError ''Invalid file data received from GitHub'' ''INVALID_RESPONSE'')), r')
      | (Inr (FileData existing_sha), r') \<Rightarrow>
          (case createOrUpdateFileContents octo (owner svc) (repo svc) path message content
                  (Some existing_sha) r' of
             (Inr _, r'') \<Rightarrow> (Inr (), r'')
           | (Inl e, r'') \<Rightarrow> (Inl (handleGitHubError (Raw e)), r'')))"

definition saveSolution ::
  "'r octokit \<Rightarrow> service \<Rightarrow> string \<Rightarrow> string \<Rightarrow> string \<Rightarrow> string \<Rightarrow> 'r
     \<Rightarrow> (thrown + unit) \<times> 'r" where
  "saveSolution octo svc plat pid src lang r =
     (case getFilePath plat pid lang of
        Inl e \<Rightarrow> (Inl e, r)
      | Inr path \<Rightarrow>
          (case checkFileExists octo svc path r of
             (Inl e, r') \<Rightarrow> (Inl e, r')
           | (Inr fileExists, r') \<Rightarrow>
               let message = generateCommitMessage plat pid fileExists
               in (case (if fileExists then updateFile octo svc path src message r'
                         else createFile octo svc path src message r') of
                     (Inl e, r'') \<Rightarrow> (Inl (handleGitHubError e), r'')
                   | (Inr u, r'') \<Rightarrow> (Inr u, r''))))"

subsection \<open>Repository setup, first implementation (create or adopt)\<close>

definition generateRepositoryReadme :: string where
  \<comment> \<open>the fixed README text, abridged to its heading\<close>
  "generateRepositoryReadme = ''# My Coding Journey''"

definition toUpperCase_char :: "char \<Rightarrow> string" where
  \<comment> \<open>\<^verbatim>\<open>toUpperCase\<close> of one character; the capitals of code points 181 and 255 lie
      beyond 255 and are not modelled\<close>
  "toUpperCase_char c =
     (let n = (of_char c :: nat)
      in if (97 \<le> n \<and> n \<le> 122) \<or> (224 \<le> n \<and> n \<le> 254 \<and> n \<noteq> 247)
         then [char_of (n - 32)]
         else if n = 223 then ''SS'' else [c])"

definition generateFolderReadme :: "string \<Rightarrow> string \<Rightarrow> string" where
  \<comment> \<open>the template up to the end of its first paragraph; the fixed text after it is
      left out\<close>
  "generateFolderReadme plat description =
     (let platformUpper =
            (case plat of [] \<Rightarrow> [] | c # cs \<Rightarrow> toUpperCase_char c @ cs)
      in ''# '' @ platformUpper @ '' Solutions'' @ [CHR 0x0A, CHR 0x0A] @ description
           @ '' organized and tracked by PushUp extension.'' @ [CHR 0x0A])"

definition folders :: "(string \<times> string) list" where
  "folders = [(''leetcode'', ''LeetCode Solutions''), (''codeforces'', ''Codeforces Solutions''),
              (''codechef'', ''CodeChef Solutions'')]"

fun readme_folders_loop ::
  "'r octokit \<Rightarrow> service \<Rightarrow> (string \<times> string) list \<Rightarrow> 'r \<Rightarrow> (thrown + unit) \<times> 'r" where
  "readme_folders_loop octo svc [] r = (Inr (), r)"
| "readme_folders_loop octo svc ((name, description) # fs) r =
     (let folderReadmePath = name @ ''/README.md'' in
      case checkFileExists octo svc folderReadmePath r of
        (Inl e, r') \<Rightarrow> (Inl e, r')
      | (Inr folderExists, r') \<Rightarrow>
          if \<not> folderExists
          then (case createFile octo svc folderReadmePath (generateFolderReadme name description)
                       (''Initialize '' @ name @ '' folder'') r' of
                  (Inl e, r'') \<Rightarrow> (Inl e, r'')
                | (Inr _, r'') \<Rightarrow> readme_folders_loop octo svc fs r'')
          else readme_folders_loop octo svc fs r')"

definition initializeFolders_readme ::
  "'r octokit \<Rightarrow> service \<Rightarrow> 'r \<Rightarrow> (thrown + unit) \<times> 'r" where
  "initializeFolders_readme octo svc r =
     (case (case checkFileExists octo svc ''README.md'' r of
              (Inl e, r') \<Rightarrow> (Inl e, r')
            | (Inr readmeExists, r') \<Rightarrow>
                if \<not> readmeExists
                then (case createFile octo svc ''README.md'' generateRepositoryReadme
                             ''Initial commit: Setup repository structure'' r' of
                        (Inl e, r'') \<Rightarrow> (Inl e, r'')
                      | (Inr _, r'') \<Rightarrow> readme_folders_loop octo svc folders r'')
                else readme_folders_loop octo svc folders r') of
        (Inl e, r') \<Rightarrow> (Inl (handleGitHubError e), r')
      | (Inr u, r') \<Rightarrow> (Inr u, r'))"

record setup_result =
  repoUrl :: string
  result_owner :: string
  result_repo :: string

definition default_description :: string where
  "default_description =
     ''My coding solutions repository managed by PushUp - Practice makes perfect!''"

definition createRepositoryWithStructure ::
  "'r octokit \<Rightarrow> service \<Rightarrow> string \<Rightarrow> string option \<Rightarrow> 'r
     \<Rightarrow> (thrown + setup_result) \<times> service \<times> 'r" where
  "createRepositoryWithStructure octo svc repoName description r =
     (let desc = (case description of None \<Rightarrow> default_description
                  | Some d \<Rightarrow> if d = [] then default_description else d);
          fetched =
            (case createForAuthenticatedUser octo repoName False desc r of
               (Inr dat, r1) \<Rightarrow> (Inr dat, r1)
             | (Inl e, r1) \<Rightarrow>
                 if has_status e 422
                 then (case repos_get octo (owner svc) repoName r1 of
                         (Inr dat, r2) \<Rightarrow> (Inr dat, r2)
                       | (Inl _, r2) \<Rightarrow>
                           (Inl (GitHubError
                                  ''Repository already exists and cannot be accessed. Please choose a different name or check permissions.''
                                  ''REPO_ACCESS_ERROR''), r2))
                 else (Inl (handleGitHubError (Raw e)), r1))
      in case fetched of
           (Inl e, r') \<Rightarrow> (Inl (handleGitHubError e), svc, r')
         | (Inr repoData, r') \<Rightarrow>
             (case (case repoData of None \<Rightarrow> None
                    | Some d \<Rightarrow> map_option (\<lambda>l. (l, d)) (owner_login d)) of
                None \<Rightarrow>
                  (Inl (handleGitHubError
                         (GitHubError ''Failed to access repository'' ''REPO_ACCESS_ERROR'')),
                   svc, r')
              | Some (l, d) \<Rightarrow>
                  let svc' = svc\<lparr>owner := l, repo := repo_name d\<rparr> in
                  (case initializeFolders_readme octo svc' r' of
                     (Inl e, r'') \<Rightarrow> (Inl (handleGitHubError e), svc', r'')
                   | (Inr _, r'') \<Rightarrow>
                       (Inr \<lparr>repoUrl = html_url d, result_owner = owner svc',
                             result_repo = repo svc'\<rparr>, svc', r''))))"

subsection \<open>Repository setup, second implementation (new or existing)\<close>

definition verifyRepoAccess ::
  "'r octokit \<Rightarrow> service \<Rightarrow> 'r \<Rightarrow> (thrown + bool) \<times> 'r" where
  "verifyRepoAccess octo svc r =
     (case repos_get octo (owner svc) (repo svc) r of
        (Inl e, r') \<Rightarrow> (Inl (handleGitHubError (Raw e)), r')
      | (Inr None, r') \<Rightarrow>
          \<comment> \<open>reading a property of \<^verbatim>\<open>undefined\<close> throws a \<^verbatim>\<open>TypeError\<close> inside the \<^verbatim>\<open>try\<close>\<close>
          (Inl (handleGitHubError
                 (Raw (ErrorObject ''Cannot read properties of undefined'' None None))), r')
      | (Inr (Some d), r') \<Rightarrow>
          (Inr (case permissions_push d of None \<Rightarrow> False | Some b \<Rightarrow> b), r'))"

definition createNewRepo ::
  "'r octokit \<Rightarrow> service \<Rightarrow> string \<Rightarrow> 'r \<Rightarrow> (thrown + unit) \<times> service \<times> 'r" where
  "createNewRepo octo svc name r =
     (let attempt =
            (case createForAuthenticatedUser octo name True
                    ''My coding solutions repository managed by PushUp'' r of
               (Inl e, r1) \<Rightarrow> (Inl (Raw e), svc, r1)
             | (Inr dat, r1) \<Rightarrow>
                 (case (case dat of None \<Rightarrow> None
                        | Some d \<Rightarrow> map_option (\<lambda>l. (l, d)) (owner_login d)) of
                    None \<Rightarrow>
                      (Inl (GitHubError ''Failed to create repository'' ''REPO_CREATE_ERROR''),
                       svc, r1)
                  | Some (l, d) \<Rightarrow>
                      let svc' = svc\<lparr>owner := l, repo := repo_name d\<rparr> in
                      (case verifyRepoAccess octo svc' r1 of
                         (Inl e, r2) \<Rightarrow> (Inl e, svc', r2)
                       | (Inr _, r2) \<Rightarrow> (Inr (), svc', r2))))
      in case attempt of
           (Inl e, svc', r') \<Rightarrow>
             if thrown_has_status e 422
             then (Inl (GitHubError ''Repository already exists'' ''REPO_EXISTS''), svc', r')
             else (Inl (handleGitHubError e), svc', r')
         | (Inr u, svc', r') \<Rightarrow> (Inr u, svc', r'))"

fun initializeFolders_gitkeep ::
  "'r octokit \<Rightarrow> service \<Rightarrow> string list \<Rightarrow> 'r \<Rightarrow> (thrown + unit) \<times> 'r" where
  "initializeFolders_gitkeep octo svc [] r = (Inr (), r)"
| "initializeFolders_gitkeep octo svc (folder # fs) r =
     (case checkFileExists octo svc (folder @ ''/.gitkeep'') r of
        (Inl e, r') \<Rightarrow> (Inl e, r')
      | (Inr exists, r') \<Rightarrow>
          if \<not> exists
          then (case createFile octo svc (folder @ ''/.gitkeep'') ''''
                       (''Initialize '' @ folder @ '' folder'') r' of
                  (Inl e, r'') \<Rightarrow> (Inl e, r'')
                | (Inr _, r'') \<Rightarrow> initializeFolders_gitkeep octo svc fs r'')
          else initializeFolders_gitkeep octo svc fs r')"

definition setupRepo ::
  "'r octokit \<Rightarrow> service \<Rightarrow> string \<Rightarrow> bool \<Rightarrow> 'r \<Rightarrow> (thrown + unit) \<times> service \<times> 'r" where
  "setupRepo octo svc repoName isNew r =
     (let prepared =
            (if isNew then createNewRepo octo svc repoName r
             else (case verifyRepoAccess octo svc r of
                     (Inl e, r') \<Rightarrow> (Inl e, svc, r')
                   | (Inr hasAccess, r') \<Rightarrow>
                       if \<not> hasAccess
                       then (Inl (GitHubError ''Insufficient permissions for repository''
                                   ''PERMISSION_ERROR''), svc, r')
                       else (Inr (), svc, r')))
      in case prepared of
           (Inl e, svc', r') \<Rightarrow> (Inl (handleGitHubError e), svc', r')
         | (Inr _, svc', r') \<Rightarrow>
             (case initializeFolders_gitkeep octo svc' [''leetcode'', ''codeforces'', ''codechef''] r' of
                (Inl e, r'') \<Rightarrow> (Inl (handleGitHubError e), svc', r'')
              | (Inr u, r'') \<Rightarrow> (Inr u, svc', r'')))"

subsection \<open>The error codes\<close>

definition spec_codes :: "string set" where
  \<comment> \<open>the closed set of the specification\<close>
  "spec_codes =
     {''AUTH_REQUIRED'', ''INIT_ERROR'', ''REPO_ACCESS_ERROR'', ''REPO_EXISTS'',
      ''REPO_CREATE_ERROR'', ''PERMISSION_ERROR'', ''UNAUTHORIZED'', ''FORBIDDEN'',
      ''NOT_FOUND'', ''VALIDATION_FAILED'', ''UNKNOWN_ERROR''}"

definition normalized_in :: "string set \<Rightarrow> thrown \<Rightarrow> bool" where
  \<comment> \<open>a \<^verbatim>\<open>GitHubError\<close> with a code of the given set, never a raw value\<close>
  "normalized_in codes e = (case e of GitHubError _ c \<Rightarrow> c \<in> codes | Raw _ \<Rightarrow> False)"

definition failure_in :: "string set \<Rightarrow> thrown + 'a \<Rightarrow> bool" where
  \<comment> \<open>an outcome that, when it is a throw, throws a normalized error\<close>
  "failure_in codes res = (case res of Inl e \<Rightarrow> normalized_in codes e | Inr _ \<Rightarrow> True)"

subsection \<open>A well-behaved remote\<close>

text \<open>
  A remote repository that answers every request: a list of files (path and content)
  and the log of the requests it has served.  The content hash of a file is \<open>h\<close> of
  its content.  Reading a missing path answers 404; writing without a hash creates a
  missing file and is refused (422) for an existing one; writing with a hash replaces
  the content of an existing file in place when the hash is that of the current
  content and is refused (409) otherwise.
\<close>

datatype api_call =
    GetContent string
  | PutContent string string string "string option"

record remote =
  files :: "(string \<times> string) list"
  calls :: "api_call list"

definition http_error :: "nat \<Rightarrow> string \<Rightarrow> js_error" where
  "http_error n msg =
     ErrorObject msg (Some n) (Some \<lparr>data_message = Some msg, response_status = Some n\<rparr>)"

definition a_repo :: repo_data where
  "a_repo = \<lparr>owner_login = Some ''octocat'', repo_name = ''solutions'',
             html_url = ''https://github.com/octocat/solutions'',
             permissions_push = Some True\<rparr>"

definition replace_content :: "string \<Rightarrow> string \<Rightarrow> (string \<times> string) list \<Rightarrow> (string \<times> string) list" where
  "replace_content path content fs = map (\<lambda>(p, c). if p = path then (p, content) else (p, c)) fs"

definition store_octokit :: "(string \<Rightarrow> string) \<Rightarrow> remote octokit" where
  "store_octokit h =
     \<lparr>createForAuthenticatedUser = (\<lambda>name priv desc r. (Inr (Some a_repo), r)),
      repos_get = (\<lambda>ow rp r. (Inr (Some a_repo), r)),
      getContent = (\<lambda>ow rp path r.
        let r' = r\<lparr>calls := calls r @ [GetContent path]\<rparr> in
        case map_of (files r) path of
          None \<Rightarrow> (Inl (http_error 404 ''Not Found''), r')
        | Some c \<Rightarrow> (Inr (FileData (h c)), r')),
      createOrUpdateFileContents = (\<lambda>ow rp path message content sha_opt r.
        let r' = r\<lparr>calls := calls r @ [PutContent path message content sha_opt]\<rparr> in
        case map_of (files r) path of
          None \<Rightarrow>
            (case sha_opt of
               None \<Rightarrow> (Inr (), r'\<lparr>files := files r @ [(path, content)]\<rparr>)
             | Some _ \<Rightarrow> (Inl (http_error 409 ''Conflict''), r'))
        | Some c \<Rightarrow>
            (case sha_opt of
               None \<Rightarrow> (Inl (http_error 422 ''sha was not supplied''), r')
             | Some s \<Rightarrow>
                 if s = h c then (Inr (), r'\<lparr>files := replace_content path content (files r)\<rparr>)
                 else (Inl (http_error 409 ''Conflict''), r')))\<rparr>"

definition a_service :: service where
  "a_service = \<lparr>owner = ''octocat'', repo = ''solutions''\<rparr>"

definition empty_remote :: remote where
  "empty_remote = \<lparr>files = [], calls = []\<rparr>"


definition listing_octokit :: "unit octokit" where
  \<comment> \<open>a remote on which every path is a directory\<close>
  "listing_octokit =
     \<lparr>createForAuthenticatedUser = (\<lambda>name priv desc r. (Inr (Some a_repo), r)),
      repos_get = (\<lambda>ow rp r. (Inr (Some a_repo), r)),
      getContent = (\<lambda>ow rp path r. (Inr Listing, r)),
      createOrUpdateFileContents = (\<lambda>ow rp path message content sha_opt r. (Inr (), r))\<rparr>"

definition handled_codes :: "string set" where
  \<comment> \<open>the codes \<open>handleGitHubError\<close> gives to a raw value\<close>
  "handled_codes =
     {''UNAUTHORIZED'', ''FORBIDDEN'', ''NOT_FOUND'', ''VALIDATION_FAILED'', ''UNKNOWN_ERROR''}"

definition save_codes :: "string set" where
  \<comment> \<open>the codes of the specification and the two further codes of \<open>saveSolution\<close>\<close>
  "save_codes = spec_codes \<union> {''INVALID_PLATFORM'', ''INVALID_RESPONSE''}"

definition solution_path :: "string \<Rightarrow> string \<Rightarrow> string \<Rightarrow> string" where
  \<comment> \<open>the deterministic path \<^verbatim>\<open>{platform}/{sanitizedProblemId}.{extension}\<close>\<close>
  "solution_path plat pid lang =
     toLowerCase plat @ ''/'' @ sanitizeFileName pid @ ''.'' @ getFileExtension lang"

definition supported :: "string \<Rightarrow> bool" where
  "supported plat = (toLowerCase plat \<in> {''leetcode'', ''codeforces'', ''codechef''})"



section \<open>The page: document, location and clock\<close>

text \<open>
  The content script reads the page through \<^verbatim>\<open>document.querySelector\<close>,
  \<^verbatim>\<open>document.body.innerText\<close>, \<^verbatim>\<open>document.title\<close>, \<^verbatim>\<open>window.location\<close> and
  \<^verbatim>\<open>Date.now()\<close>.  A page snapshot gives the answer to each of these: the element a
  selector finds (if any), the texts, the parts of the address and the clock reading.
  An element carries its \<^verbatim>\<open>textContent\<close>, its \<^verbatim>\<open>value\<close> (absent unless a form
  control), the text of its selected option (absent when it has no options or none is
  selected) and the answers to \<^verbatim>\<open>querySelector\<close> inside it.
\<close>

datatype element =
  Element (textContent: string) (elem_value: "string option")
    (selected_option_text: "string option") (children: "(string \<times> element) list")

record page =
  loc_href :: string
  loc_pathname :: string
  search_lang :: "string option"
  document_title :: string
  body_innerText :: string
  dom :: "(string \<times> element) list"
  clock :: int

definition querySelector :: "page \<Rightarrow> string \<Rightarrow> element option" where
  "querySelector p sel = map_of (dom p) sel"

definition el_querySelector :: "element \<Rightarrow> string \<Rightarrow> element option" where
  "el_querySelector e sel = map_of (children e) sel"

definition is_space :: "char \<Rightarrow> bool" where
  \<comment> \<open>the white space and line terminators below code point 256\<close>
  "is_space c = ((of_char c :: nat) \<in> {9, 10, 11, 12, 13, 32, 160})"

definition trim :: "string \<Rightarrow> string" where
  "trim s = rev (dropWhile is_space (rev (dropWhile is_space s)))"

function show_int :: "int \<Rightarrow> string" where
  \<comment> \<open>an integer in a template string\<close>
  "show_int n =
     (if n < 0 then CHR ''-'' # show_int (- n)
      else if n < 10 then [char_of (48 + n)]
      else show_int (n div 10) @ [char_of (48 + n mod 10)])"
  by pat_completeness auto
termination
  by (relation "measure (\<lambda>n. nat \<bar>n\<bar> + (if n < 0 then 1 else 0))") auto

declare show_int.simps [simp del]

fun match_after :: "string \<Rightarrow> (char \<Rightarrow> bool) \<Rightarrow> string \<Rightarrow> string option" where
  \<comment> \<open>\<^verbatim>\<open>s.match(/lit([class]+)/)\<close>: the group of the leftmost match\<close>
  "match_after lit cls [] = None"
| "match_after lit cls (c # cs) =
     (if prefix lit (c # cs) \<and> takeWhile cls (drop (length lit) (c # cs)) \<noteq> []
      then Some (takeWhile cls (drop (length lit) (c # cs)))
      else match_after lit cls cs)"

definition is_upper_alnum :: "char \<Rightarrow> bool" where
  \<comment> \<open>the class \<^verbatim>\<open>[A-Z0-9]\<close>\<close>
  "is_upper_alnum c =
     (let n = (of_char c :: nat) in (65 \<le> n \<and> n \<le> 90) \<or> (48 \<le> n \<and> n \<le> 57))"

fun first_text :: "page \<Rightarrow> string list \<Rightarrow> string" where
  \<comment> \<open>the loop over selectors: the trimmed text of the first element that has some,
      the empty string when none has\<close>
  "first_text p [] = []"
| "first_text p (sel # sels) =
     (case querySelector p sel of
        None \<Rightarrow> first_text p sels
      | Some e \<Rightarrow> if trim (textContent e) \<noteq> [] then trim (textContent e) else first_text p sels)"

fun first_element :: "page \<Rightarrow> string list \<Rightarrow> element option" where
  \<comment> \<open>\<^verbatim>\<open>querySelector(a) || querySelector(b) || ...\<close>\<close>
  "first_element p [] = None"
| "first_element p (sel # sels) =
     (case querySelector p sel of None \<Rightarrow> first_element p sels | Some e \<Rightarrow> Some e)"

definition Error :: "string \<Rightarrow> js_error" where
  \<comment> \<open>\<^verbatim>\<open>new Error(message)\<close>\<close>
  "Error msg = ErrorObject msg None None"

section \<open>Submission detector, extended content script\<close>

definition isSuccessfulSubmission :: "string \<Rightarrow> page \<Rightarrow> bool" where
  "isSuccessfulSubmission plat p =
     (if plat = ''leetcode'' then
        first_element p
          [''.success-icon'', ''[data-e2e-locator=\"console-result\"] .text-green-s'',
           ''.result-success'', ''[data-testid=\"success-icon\"]'', ''.text-green-600'',
           ''.text-green-500'', ''[class*=\"text-green\"]'', ''[class*=\"success\"]''] \<noteq> None
        \<or> includes_str (body_innerText p) ''Accepted''
        \<or> includes_str (body_innerText p) ''Success''
        \<or> includes_str (body_innerText p) ''Runtime:''
        \<or> includes_str (body_innerText p) ''Memory:''
      else if plat = ''codeforces'' then
        includes_str (body_innerText p) ''Accepted''
        \<or> first_element p [''.verdict-accepted'', ''.accepted'', ''[class*=\"accepted\"]''] \<noteq> None
      else if plat = ''codechef'' then
        includes_str (body_innerText p) ''Success''
        \<or> includes_str (body_innerText p) ''Accepted''
        \<or> first_element p [''.result-success'', ''[class*=\"success\"]''] \<noteq> None
      else False)"

definition titleSelectors :: "string list" where
  "titleSelectors =
     [''[data-cy=\"question-title\"]'', ''h1[class*=\"text-title-large\"]'',
      ''div[class*=\"text-title-large\"]'', ''.text-title-large'',
      ''h1[class*=\"text-label-1\"]'', ''div[class*=\"text-label-1\"]'', ''.text-label-1'',
      ''h1[class*=\"font-medium\"]'', ''div[class*=\"font-medium\"]'',
      ''h1[class*=\"mr-2\"]'', ''div[class*=\"mr-2\"]'', ''[class*=\"question-title\"]'',
      ''[class*=\"problem-title\"]'', ''.text-lg.font-medium'', ''.text-xl.font-medium'',
      ''.text-2xl.font-medium'', ''.title-text'', ''.css-v3d350'', ''h1[class*=\"text\"]'',
      ''.question-title'', ''h1'', ''.title'', ''[role=\"heading\"]'']"

definition extractLeetCodeProblemId :: "page \<Rightarrow> js_error + string" where
  "extractLeetCodeProblemId p =
     (let title0 = first_text p titleSelectors;
          title1 =
            (if title0 = [] then
               (case match_after ''/problems/'' (\<lambda>c. c \<noteq> CHR ''/'') (loc_pathname p) of
                  None \<Rightarrow> title0
                | Some m \<Rightarrow> map (\<lambda>c. if c = CHR ''-'' then CHR '' '' else c) m)
             else title0);
          title2 =
            (if title1 = [] \<and> document_title p \<noteq> [] then
               (case takeWhile (\<lambda>c. c \<noteq> CHR ''-'') (document_title p) of
                  [] \<Rightarrow> title1
                | m \<Rightarrow> trim m)
             else title1);
          title3 =
            (if title2 = [] then ''leetcode-problem-'' @ show_int (clock p) else title2)
      in Inr (slugify title3))"

definition extractLeetCodeCode :: "page \<Rightarrow> js_error + string" where
  "extractLeetCodeCode p =
     (let code1 =
            (case querySelector p ''.monaco-editor'' of
               None \<Rightarrow> []
             | Some editor \<Rightarrow>
                 (case el_querySelector editor ''.view-lines'' of
                    None \<Rightarrow> []
                  | Some codeElement \<Rightarrow>
                      if textContent codeElement \<noteq> [] then trim (textContent codeElement)
                      else []));
          code2 =
            (if code1 = [] then
               (case querySelector p ''.CodeMirror-code'' of
                  None \<Rightarrow> code1
                | Some codeMirror \<Rightarrow>
                    if textContent codeMirror \<noteq> [] then trim (textContent codeMirror)
                    else code1)
             else code1);
          code3 =
            (if code2 = [] then
               (case querySelector p ''textarea[data-mode]'' of
                  None \<Rightarrow> code2
                | Some textarea \<Rightarrow>
                    (case elem_value textarea of
                       None \<Rightarrow> code2
                     | Some v \<Rightarrow> if v \<noteq> [] then trim v else code2))
             else code2)
      in if code3 = [] then Inl (Error ''No code content found'') else Inr code3)"

definition extractLeetCodeLanguage :: "page \<Rightarrow> js_error + string" where
  "extractLeetCodeLanguage p =
     (let language0 =
            first_text p
              [''.language-btn'', ''button[id*=\"headlessui-listbox-button\"]'',
               ''[data-track-load=\"description_page\"]'', ''.text-xs.font-medium.text-label-2'',
               ''button[class*=\"language\"]'', ''select[name=\"lang\"]''];
          language1 =
            (if language0 = [] then
               (case search_lang p of
                  None \<Rightarrow> ''javascript''
                | Some l \<Rightarrow> if l = [] then ''javascript'' else l)
             else language0)
      in Inr (toLowerCase language1))"

definition difficulty_of_text :: "string \<Rightarrow> difficulty option" where
  "difficulty_of_text t =
     (if includes_str t ''easy'' then Some Easy
      else if includes_str t ''medium'' then Some Medium
      else if includes_str t ''hard'' then Some Hard
      else None)"

definition extractLeetCodeDifficulty :: "page \<Rightarrow> difficulty option" where
  "extractLeetCodeDifficulty p =
     (case first_element p [''[diff]'', ''.css-10o4wqw'', ''[data-difficulty]''] of
        None \<Rightarrow> difficulty_of_text (toLowerCase (body_innerText p))
      | Some difficultyElement \<Rightarrow> difficulty_of_text (toLowerCase (textContent difficultyElement)))"

definition extractLeetCodeTitle :: "page \<Rightarrow> string option" where
  "extractLeetCodeTitle p =
     (let t = first_text p
                [''.title-text'', ''[data-cy=\"question-title\"]'', ''.css-v3d350'',
                 ''.text-title-large'',
                 ''.mr-2.text-label-1.dark'' @ [CHR 0x5C] @ '':text-dark-label-1.font-medium'',
                 ''h1[class*=\"text\"]'', ''[class*=\"question-title\"]'', ''.question-title'',
                 ''h1'']
      in if t = [] then None else Some t)"

definition problem_id_from ::
  "string \<Rightarrow> string \<Rightarrow> page \<Rightarrow> js_error + string" where
  \<comment> \<open>the Codeforces and CodeChef problem-id extractors: the upper-case id in the
      address, else the slug of a heading, else \<open>unknown\<close>\<close>
  "problem_id_from lit sel p =
     (case match_after lit is_upper_alnum (loc_href p) of
        Some m \<Rightarrow> Inr (toLowerCase m)
      | None \<Rightarrow>
          (case querySelector p sel of
             None \<Rightarrow> Inr ''unknown''
           | Some e \<Rightarrow> if textContent e \<noteq> [] then Inr (slugify (textContent e))
                       else Inr ''unknown''))"

definition code_from :: "string list \<Rightarrow> page \<Rightarrow> js_error + string" where
  \<comment> \<open>the Codeforces and CodeChef code extractors\<close>
  "code_from sels p =
     (case first_element p sels of
        None \<Rightarrow> Inl (Error ''Could not find code editor'')
      | Some codeElement \<Rightarrow>
          let c = (if textContent codeElement \<noteq> [] then textContent codeElement
                   else (case elem_value codeElement of None \<Rightarrow> [] | Some v \<Rightarrow> v))
          in if c = [] then Inl (Error ''No code content found'') else Inr (trim c))"

definition language_from :: "string \<Rightarrow> page \<Rightarrow> js_error + string" where
  \<comment> \<open>the Codeforces and CodeChef language extractors\<close>
  "language_from sel p =
     (case querySelector p sel of
        None \<Rightarrow> Inl (Error ''Could not find language selector'')
      | Some langSelect \<Rightarrow>
          (case selected_option_text langSelect of
             None \<Rightarrow> Inl (Error ''No language selected'')
           | Some l \<Rightarrow> if l = [] then Inl (Error ''No language selected'')
                       else Inr (toLowerCase l)))"

definition title_from :: "string list \<Rightarrow> page \<Rightarrow> string option" where
  \<comment> \<open>the Codeforces and CodeChef title extractors\<close>
  "title_from sels p = map_option (\<lambda>e. trim (textContent e)) (first_element p sels)"

definition extractCodeforceProblemId :: "page \<Rightarrow> js_error + string" where
  "extractCodeforceProblemId = problem_id_from ''problem/'' ''.title''"

definition extractCodeforceCode :: "page \<Rightarrow> js_error + string" where
  "extractCodeforceCode =
     code_from [''textarea[name=\"sourceCode\"]'', ''.CodeMirror-code'', ''#program-source-text'']"

definition extractCodeforceLanguage :: "page \<Rightarrow> js_error + string" where
  "extractCodeforceLanguage = language_from ''select[name=\"programTypeId\"]''"

definition extractCodeforceTitle :: "page \<Rightarrow> string option" where
  "extractCodeforceTitle = title_from [''.title'', ''.problem-statement .title'']"

definition extractCodechefProblemId :: "page \<Rightarrow> js_error + string" where
  "extractCodechefProblemId = problem_id_from ''problems/'' ''.problem-title''"

definition extractCodechefCode :: "page \<Rightarrow> js_error + string" where
  "extractCodechefCode =
     code_from [''#solution_code'', ''.CodeMirror-code'', ''textarea[name=\"code\"]'']"

definition extractCodechefLanguage :: "page \<Rightarrow> js_error + string" where
  "extractCodechefLanguage = language_from ''#language''"

definition extractCodechefTitle :: "page \<Rightarrow> string option" where
  "extractCodechefTitle = title_from [''.problem-title'', ''h1'', ''.title'']"

definition build_record ::
  "string \<Rightarrow> js_error + string \<Rightarrow> js_error + string \<Rightarrow> js_error + string
     \<Rightarrow> difficulty option \<Rightarrow> string option \<Rightarrow> js_error + SubmissionData" where
  \<comment> \<open>the object literal of one \<^verbatim>\<open>case\<close>: the extractors run in the order problem id,
      code, language, and the first throw leaves the literal unbuilt\<close>
  "build_record plat pid_res code_res lang_res diff ttl =
     (case pid_res of
        Inl e \<Rightarrow> Inl e
      | Inr pid \<Rightarrow>
          (case code_res of
             Inl e \<Rightarrow> Inl e
           | Inr c \<Rightarrow>
               (case lang_res of
                  Inl e \<Rightarrow> Inl e
                | Inr l \<Rightarrow>
                    Inr \<lparr>platform = plat, problemId = pid, code = c, language = l,
                         difficulty = diff, title = ttl\<rparr>)))"

definition fallback_record :: "string \<Rightarrow> page \<Rightarrow> SubmissionData" where
  \<comment> \<open>the \<^verbatim>\<open>catch\<close> block: the data object still holds only the platform\<close>
  "fallback_record plat p =
     \<lparr>platform = plat, problemId = ''unknown-'' @ show_int (clock p),
      code = ''// Code extraction failed'', language = ''unknown'',
      difficulty = None, title = None\<rparr>"

definition extractSubmissionData :: "string \<Rightarrow> page \<Rightarrow> js_error + SubmissionData" where
  "extractSubmissionData plat p =
     (if plat = ''leetcode'' then
        (case build_record plat (extractLeetCodeProblemId p) (extractLeetCodeCode p)
                (extractLeetCodeLanguage p) (extractLeetCodeDifficulty p)
                (extractLeetCodeTitle p) of
           Inl _ \<Rightarrow> Inr (fallback_record plat p)
         | Inr d \<Rightarrow> Inr d)
      else if plat = ''codeforces'' then
        (case build_record plat (extractCodeforceProblemId p) (extractCodeforceCode p)
                (extractCodeforceLanguage p) None (extractCodeforceTitle p) of
           Inl _ \<Rightarrow> Inr (fallback_record plat p)
         | Inr d \<Rightarrow> Inr d)
      else if plat = ''codechef'' then
        (case build_record plat (extractCodechefProblemId p) (extractCodechefCode p)
                (extractCodechefLanguage p) None (extractCodechefTitle p) of
           Inl _ \<Rightarrow> Inr (fallback_record plat p)
         | Inr d \<Rightarrow> Inr d)
      else
        \<comment> \<open>no case matches; \<open>logSubmission\<close> reads \<^verbatim>\<open>data.code.length\<close> of a record
            without code\<close>
        Inl (Error ''Cannot read properties of undefined (reading length)''))"

definition on_mutation :: "string \<Rightarrow> page \<Rightarrow> SubmissionData list" where
  \<comment> \<open>the observer's callback for one mutation batch: the messages it sends\<close>
  "on_mutation plat p =
     (if isSuccessfulSubmission plat p then
        (case extractSubmissionData plat p of Inl _ \<Rightarrow> [] | Inr d \<Rightarrow> [d])
      else [])"

definition SubmissionDetector :: "string \<Rightarrow> page list \<Rightarrow> SubmissionData list" where
  \<comment> \<open>a page session: the platform is detected once from the host name, then the
      callback runs on the page as it is at each mutation batch\<close>
  "SubmissionDetector host batches = concat (map (on_mutation (detectPlatform host)) batches)"

section \<open>Submission detector, basic content script (content/content.ts)\<close>

definition isSuccessfulSubmission_basic :: "string \<Rightarrow> page \<Rightarrow> bool" where
  "isSuccessfulSubmission_basic plat p =
     (if plat = ''leetcode'' then querySelector p ''.success-icon'' \<noteq> None
      else if plat = ''codeforces'' then includes_str (body_innerText p) ''Accepted''
      else if plat = ''codechef'' then includes_str (body_innerText p) ''Success''
      else False)"

definition extractLeetCodeProblemId_basic :: "page \<Rightarrow> js_error + string" where
  "extractLeetCodeProblemId_basic p =
     (case querySelector p ''.title-text'' of
        None \<Rightarrow> Inl (Error ''Could not find problem title'')
      | Some e \<Rightarrow> if textContent e = [] then Inl (Error ''Could not find problem title'')
                  else Inr (slugify (textContent e)))"

definition extractLeetCodeCode_basic :: "page \<Rightarrow> js_error + string" where
  "extractLeetCodeCode_basic p =
     (case querySelector p ''.monaco-editor'' of
        None \<Rightarrow> Inl (Error ''Could not find code editor'')
      | Some editor \<Rightarrow>
          (case el_querySelector editor ''.view-lines'' of
             None \<Rightarrow> Inl (Error ''Could not find code content'')
           | Some codeElement \<Rightarrow>
               if textContent codeElement = [] then Inl (Error ''No code content found'')
               else Inr (trim (textContent codeElement))))"

definition extractLeetCodeLanguage_basic :: "page \<Rightarrow> js_error + string" where
  "extractLeetCodeLanguage_basic p =
     (case querySelector p ''.language-btn'' of
        None \<Rightarrow> Inl (Error ''Could not find language selector'')
      | Some langElement \<Rightarrow>
          if textContent langElement = [] then Inl (Error ''No language selected'')
          else Inr (toLowerCase (textContent langElement)))"

definition extractSubmissionData_basic :: "string \<Rightarrow> page \<Rightarrow> js_error + SubmissionData" where
  "extractSubmissionData_basic plat p =
     (if plat = ''leetcode'' then
        build_record plat (extractLeetCodeProblemId_basic p) (extractLeetCodeCode_basic p)
          (extractLeetCodeLanguage_basic p) None None
      else Inl (Error ''Cannot read properties of undefined (reading length)''))"

definition on_mutation_basic :: "string \<Rightarrow> page \<Rightarrow> SubmissionData list" where
  "on_mutation_basic plat p =
     (if isSuccessfulSubmission_basic plat p then
        (case extractSubmissionData_basic plat p of Inl _ \<Rightarrow> [] | Inr d \<Rightarrow> [d])
      else [])"

definition SubmissionDetector_basic :: "string \<Rightarrow> page list \<Rightarrow> SubmissionData list" where
  "SubmissionDetector_basic host batches =
     concat (map (on_mutation_basic (detectPlatform host)) batches)"

subsection \<open>Sample pages\<close>

definition accepted_page :: page where
  \<comment> \<open>a LeetCode problem page after an accepted submission\<close>
  "accepted_page =
     \<lparr>loc_href = ''https://leetcode.com/problems/two-sum/'',
      loc_pathname = ''/problems/two-sum/'', search_lang = None,
      document_title = ''Two Sum - LeetCode'', body_innerText = ''Two Sum Accepted'',
      dom = [(''.success-icon'', Element '''' None None []),
             (''.title-text'', Element ''Two Sum'' None None []),
             (''.monaco-editor'',
                Element ''return 0'' None None
                  [(''.view-lines'', Element ''return 0'' None None [])]),
             (''.language-btn'', Element ''Python'' None None [])],
      clock = 1700000000000\<rparr>"

definition no_editor_page :: page where
  \<comment> \<open>the same page without any code editor\<close>
  "no_editor_page =
     accepted_page\<lparr>dom := [(''.success-icon'', Element '''' None None []),
                            (''.title-text'', Element ''Two Sum'' None None []),
                            (''.language-btn'', Element ''Python'' None None [])]\<rparr>"

definition bare_page :: page where
  \<comment> \<open>a result page that shows no title anywhere: no heading element, no problem in
      the address, no document title\<close>
  "bare_page =
     \<lparr>loc_href = ''https://leetcode.com/'', loc_pathname = ''/'', search_lang = None,
      document_title = '''', body_innerText = ''Accepted'',
      dom = [(''.success-icon'', Element '''' None None []),
             (''.monaco-editor'',
                Element ''return 0'' None None
                  [(''.view-lines'', Element ''return 0'' None None [])]),
             (''.language-btn'', Element ''Python'' None None [])],
      clock = 1700000000000\<rparr>"

definition title_strategies_fail :: "page \<Rightarrow> bool" where
  \<comment> \<open>every strategy of the LeetCode problem-id extractor comes up empty: the
      selectors, the address, the document title\<close>
  "title_strategies_fail p =
     (first_text p titleSelectors = []
      \<and> match_after ''/problems/'' (\<lambda>c. c \<noteq> CHR ''/'') (loc_pathname p) = None
      \<and> trim (takeWhile (\<lambda>c. c \<noteq> CHR ''-'') (document_title p)) = [])"

definition id_strategies_fail :: "string \<Rightarrow> string \<Rightarrow> page \<Rightarrow> bool" where
  \<comment> \<open>every strategy of a Codeforces or CodeChef problem-id extractor comes up empty:
      the address, the heading\<close>
  "id_strategies_fail lit sel p =
     (match_after lit is_upper_alnum (loc_href p) = None
      \<and> (case querySelector p sel of None \<Rightarrow> True | Some e \<Rightarrow> textContent e = []))"

definition code_extractor :: "string \<Rightarrow> page \<Rightarrow> js_error + string" where
  \<comment> \<open>the code extractor that \<open>extractSubmissionData\<close> runs for a platform\<close>
  "code_extractor plat p =
     (if plat = ''leetcode'' then extractLeetCodeCode p
      else if plat = ''codeforces'' then extractCodeforceCode p
      else extractCodechefCode p)"

definition problem_id_extractor :: "string \<Rightarrow> page \<Rightarrow> js_error + string" where
  \<comment> \<open>the problem-id extractor that \<open>extractSubmissionData\<close> runs for a platform\<close>
  "problem_id_extractor plat p =
     (if plat = ''leetcode'' then extractLeetCodeProblemId p
      else if plat = ''codeforces'' then extractCodeforceProblemId p
      else extractCodechefProblemId p)"

section \<open>Properties of the streak update\<close>

lemma checkAchievements_streak [simp]:
  "streak (snd (checkAchievements k s)) = streak s"
  "longestStreak (snd (checkAchievements k s)) = longestStreak s"
  "lastPushDate (snd (checkAchievements k s)) = lastPushDate s"
  by (simp_all add: checkAchievements_def Let_def case_prod_beta)

lemma updateStreak_same_day:
  "lastPushDate s = Some (utc_day now) \<Longrightarrow>
     updateStreak now shift s = ((or0 (streak s), []), s)"
  by (simp add: updateStreak_def)

lemma updateStreak_other_day:
  assumes "lastPushDate s \<noteq> Some (utc_day now)"
  shows "streak (snd (updateStreak now shift s)) =
           Some (if lastPushDate s = Some (utc_day (setDate_back 1 shift now))
                 then or0 (streak s) + 1 else 1)"
    and "longestStreak (snd (updateStreak now shift s)) =
           Some (max (or0 (longestStreak s))
                     (if lastPushDate s = Some (utc_day (setDate_back 1 shift now))
                      then or0 (streak s) + 1 else 1))"
    and "lastPushDate (snd (updateStreak now shift s)) = Some (utc_day now)"
    and "fst (fst (updateStreak now shift s)) =
           (if lastPushDate s = Some (utc_day (setDate_back 1 shift now))
            then or0 (streak s) + 1 else 1)"
  using assms
  by (auto simp add: updateStreak_def Let_def case_prod_beta max.commute split: option.splits)

lemma lastPushDate_updateStreak:
  "lastPushDate (snd (updateStreak now shift s)) = Some (utc_day now)"
  by (cases "lastPushDate s = Some (utc_day now)")
     (simp_all add: updateStreak_same_day updateStreak_other_day)

lemma yesterday_no_shift: "utc_day (setDate_back 1 0 now) = utc_day now - 1"
proof -
  have "(now + ms_per_day * (- 1)) div ms_per_day = - 1 + now div ms_per_day"
    by (rule div_mult_self2) (simp add: ms_per_day_def)
  then show ?thesis by (simp add: setDate_back_def utc_day_def)
qed

lemma fall_back_dates:
  "utc_day fall_back_evening = iso_day 2025 11 3"
  "utc_day (setDate_back 1 fall_back_shift fall_back_evening) = iso_day 2025 11 1"
  "utc_day (setDate_back 1 0 fall_back_evening) = iso_day 2025 11 2"
  "iso_day 2025 11 3 = 20395" "iso_day 2025 11 2 = 20394" "iso_day 2025 11 1 = 20393"
  by (simp_all add: fall_back_evening_def fall_back_shift_def setDate_back_def utc_day_def
        day_start_def ms_per_day_def iso_day_def Let_def)

text \<open>
  Claim C3, at a failing input.  At 2025-11-03T00:30Z in New York the local day before
  is still in daylight-saving time, so \<open>yesterday\<close> lies 25 hours back and
  \<open>yesterdayStr\<close> is 2025-11-01.  With a last contribution on 2025-11-02, exactly one
  day before the event date 2025-11-03, and a streak of 5, the update sets the streak to
  1, where the transition function of the claim gives 6; with no offset change the same
  call gives 6.
\<close>

theorem updateStreak_dst_reset:
  "utc_day fall_back_evening = iso_day 2025 11 3
   \<and> lastPushDate (day_store (iso_day 2025 11 2) 5 5) = Some (utc_day fall_back_evening - 1)
   \<and> utc_day (setDate_back 1 fall_back_shift fall_back_evening) = iso_day 2025 11 1
   \<and> streak (snd (updateStreak fall_back_evening fall_back_shift
                    (day_store (iso_day 2025 11 2) 5 5))) = Some 1
   \<and> streak (snd (updateStreak fall_back_evening 0
                    (day_store (iso_day 2025 11 2) 5 5))) = Some 6"
proof -
  define st where "st = day_store (iso_day 2025 11 2) 5 5"
  have l: "lastPushDate st = Some 20394" "or0 (streak st) = 5"
    by (simp_all add: st_def fall_back_dates day_store_def empty_storage_def or0_def)
  have n: "lastPushDate st \<noteq> Some (utc_day fall_back_evening)"
    by (simp add: l fall_back_dates)
  have a: "streak (snd (updateStreak fall_back_evening fall_back_shift st)) = Some 1"
    using updateStreak_other_day(1)[OF n, of fall_back_shift] by (simp add: l fall_back_dates)
  have b: "streak (snd (updateStreak fall_back_evening 0 st)) = Some 6"
    using updateStreak_other_day(1)[OF n, of 0] by (simp add: l fall_back_dates)
  show ?thesis
    unfolding st_def[symmetric] using a b l by (simp add: fall_back_dates)
qed











section \<open>Properties of the achievement set\<close>

lemma set_foldl_set_add: "set (foldl set_add acc xs) = set acc \<union> set xs"
  by (induction xs arbitrary: acc) auto

lemma set_new_Set: "set (new_Set xs) = set xs"
  by (simp add: new_Set_def set_foldl_set_add)

lemma check_loop_spec:
  "check_loop as k u acc = (u', acc') \<Longrightarrow>
     \<exists>new. acc' = acc @ new \<and> set u' = set u \<union> ach_id ` set new
        \<and> distinct (map ach_id new) \<and> ach_id ` set new \<inter> set u = {}"
proof (induction as arbitrary: u acc)
  case Nil
  then show ?case by simp
next
  case (Cons a as)
  show ?case
  proof (cases "ach_id a \<notin> set u \<and> condition a k")
    case True
    with Cons.prems have "check_loop as k (u @ [ach_id a]) (acc @ [a]) = (u', acc')"
      by simp
    from Cons.IH[OF this] obtain new where
      n: "acc' = (acc @ [a]) @ new" "set u' = set (u @ [ach_id a]) \<union> ach_id ` set new"
         "distinct (map ach_id new)" "ach_id ` set new \<inter> set (u @ [ach_id a]) = {}"
      by blast
    have "acc' = acc @ (a # new)" using n(1) by simp
    moreover have "set u' = set u \<union> ach_id ` set (a # new)" using n(2) by auto
    moreover have "distinct (map ach_id (a # new))" using n(3,4) by auto
    moreover have "ach_id ` set (a # new) \<inter> set u = {}" using n(4) True by auto
    ultimately show ?thesis by blast
  next
    case False
    with Cons.prems have "check_loop as k u acc = (u', acc')"
      by (simp split: if_splits)
    from Cons.IH[OF this] show ?thesis .
  qed
qed

lemma checkAchievements_spec:
  assumes "checkAchievements k s = (new, s')"
  shows "unlocked_set s' = unlocked_set s \<union> ach_id ` set new"
    and "distinct (map ach_id new)"
    and "ach_id ` set new \<inter> unlocked_set s = {}"
proof -
  define u0 where "u0 = new_Set (case unlockedAchievements s of None \<Rightarrow> [] | Some xs \<Rightarrow> xs)"
  obtain u' acc' where cl: "check_loop achievements k u0 [] = (u', acc')"
    by (cases "check_loop achievements k u0 []") auto
  have u0: "set u0 = unlocked_set s"
    by (simp add: u0_def set_new_Set unlocked_set_def split: option.splits)
  from check_loop_spec[OF cl] obtain nw where
    n: "acc' = [] @ nw" "set u' = set u0 \<union> ach_id ` set nw"
       "distinct (map ach_id nw)" "ach_id ` set nw \<inter> set u0 = {}"
    by blast
  have new: "new = acc'"
    using assms cl by (simp add: checkAchievements_def u0_def Let_def split: if_splits)
  have s': "s' = (if length acc' > 0 then s\<lparr>unlockedAchievements := Some u'\<rparr> else s)"
    using assms cl by (simp add: checkAchievements_def u0_def Let_def split: if_splits)
  show "unlocked_set s' = unlocked_set s \<union> ach_id ` set new"
    using n u0 new s' by (auto simp: unlocked_set_def)
  show "distinct (map ach_id new)" using n new by simp
  show "ach_id ` set new \<inter> unlocked_set s = {}" using n new u0 by simp
qed

lemma achievement_runs_spec:
  "distinct (concat (achievement_runs s ks)) \<and>
   set (concat (achievement_runs s ks)) \<inter> unlocked_set s = {}"
proof (induction ks arbitrary: s)
  case Nil
  show ?case by simp
next
  case (Cons k ks)
  obtain new s' where c: "checkAchievements k s = (new, s')"
    by (cases "checkAchievements k s") auto
  note sp = checkAchievements_spec[OF c]
  from Cons.IH[of s'] have ih: "distinct (concat (achievement_runs s' ks))"
    "set (concat (achievement_runs s' ks)) \<inter> unlocked_set s' = {}" by auto
  have r: "achievement_runs s (k # ks) = map ach_id new # achievement_runs s' ks"
    using c by simp
  show ?case
    unfolding r using sp ih by auto
qed

lemma unlocked_updateStreak:
  "unlocked_set s \<subseteq> unlocked_set (snd (updateStreak now shift s))"
proof (cases "lastPushDate s = Some (utc_day now)")
  case True
  then show ?thesis by (simp add: updateStreak_def)
next
  case False
  define k where "k = (case lastPushDate s of None \<Rightarrow> 1
               | Some l \<Rightarrow> if l = utc_day (setDate_back 1 shift now)
                          then or0 (streak s) + 1 else 1)"
  define s1 where "s1 = s\<lparr>streak := Some k, lastPushDate := Some (utc_day now),
                          longestStreak := Some (max k (or0 (longestStreak s)))\<rparr>"
  obtain new s' where c: "checkAchievements k s1 = (new, s')"
    by (cases "checkAchievements k s1") auto
  have "snd (updateStreak now shift s) = s'"
    using False c by (simp add: updateStreak_def Let_def k_def s1_def)
  moreover have "unlocked_set s1 = unlocked_set s" by (simp add: s1_def unlocked_set_def)
  ultimately show ?thesis using checkAchievements_spec(1)[OF c] by auto
qed

text \<open>
  Claim C8.  The set of unlocked achievement identifiers only grows, both under
  \<open>checkAchievements\<close> and under the streak update that calls it; the identifiers
  that \<open>checkAchievements\<close> reports were not unlocked before and are unlocked
  afterwards; and across any series of calls no identifier is reported twice, nor is one
  reported that was unlocked at the start.
\<close>

theorem achievements_unlock_once:
  "unlocked_set s \<subseteq> unlocked_set (snd (checkAchievements k s))
   \<and> unlocked_set s \<subseteq> unlocked_set (snd (updateStreak now shift s))
   \<and> ach_id ` set (fst (checkAchievements k s)) \<inter> unlocked_set s = {}
   \<and> ach_id ` set (fst (checkAchievements k s))
        \<subseteq> unlocked_set (snd (checkAchievements k s))
   \<and> distinct (concat (achievement_runs s ks))
   \<and> set (concat (achievement_runs s ks)) \<inter> unlocked_set s = {}"
proof -
  obtain new s' where c: "checkAchievements k s = (new, s')"
    by (cases "checkAchievements k s") auto
  note sp = checkAchievements_spec[OF c]
  have "unlocked_set s \<subseteq> unlocked_set (snd (checkAchievements k s))"
    using sp(1) c by auto
  moreover have "ach_id ` set (fst (checkAchievements k s)) \<inter> unlocked_set s = {}"
    using sp(3) c by simp
  moreover have "ach_id ` set (fst (checkAchievements k s))
        \<subseteq> unlocked_set (snd (checkAchievements k s))"
    using sp(1) c by auto
  ultimately show ?thesis
    using unlocked_updateStreak[of s now shift] achievement_runs_spec[of s ks] by blast
qed

lemma achievement_runs_example:
  "achievement_runs (empty_storage\<lparr>unlockedAchievements := Some [''streak-50'']\<rparr>)
     [7, 30, 7, 100] = [[''streak-7''], [''streak-30''], [], [''streak-100'']]"
  by (simp add: checkAchievements_def achievements_def new_Set_def empty_storage_def Let_def)

theorem achievements_unlock_once_witness:
  "achievement_runs (empty_storage\<lparr>unlockedAchievements := Some [''streak-50'']\<rparr>)
     [7, 30, 7, 100] = [[''streak-7''], [''streak-30''], [], [''streak-100'']]
   \<and> distinct (concat (achievement_runs
         (empty_storage\<lparr>unlockedAchievements := Some [''streak-50'']\<rparr>) [7, 30, 7, 100]))
   \<and> set (concat (achievement_runs
         (empty_storage\<lparr>unlockedAchievements := Some [''streak-50'']\<rparr>) [7, 30, 7, 100]))
       \<inter> unlocked_set (empty_storage\<lparr>unlockedAchievements := Some [''streak-50'']\<rparr>) = {}"
  using achievements_unlock_once
          [of "empty_storage\<lparr>unlockedAchievements := Some [''streak-50'']\<rparr>" 7 0 0
              "[7, 30, 7, 100]"]
        achievement_runs_example
  by blast

section \<open>Properties of the daily buckets\<close>


lemma date_bump_bucket [simp]: "date (bump_bucket diff b) = date b"
  by (simp add: bump_bucket_def Let_def split: option.splits)













lemma old_store_run:
  "map (\<lambda>b. (date b, submissions b, problems b Easy, problems b Hard))
     (buckets (updateDailySubmissions (day_start (iso_day 2025 6 15) + 1000)
                (a_submission (Some Hard)) old_store))
   = [(iso_day 2025 3 1, 2, 0, 0), (iso_day 2025 6 15, 1, 0, 1)]"
  by (simp add: updateDailySubmissions_def old_store_def empty_storage_def buckets_def
        a_submission_def iso_day_def day_start_def utc_day_def ms_per_day_def Let_def
        new_bucket_def bump_bucket_def)


section \<open>Properties of the slug functions\<close>

lemma hyphen_not_kept [simp]:
  "\<not> is_alnum CHR ''-''" "\<not> is_alnum_or_underscore CHR ''-''"
  by (simp_all add: is_alnum_def is_alnum_or_underscore_def)

lemma is_file_char_iff: "is_file_char c \<longleftrightarrow> is_alnum_or_underscore c \<or> c = CHR ''-''"
  by (auto simp: is_file_char_def is_alnum_or_underscore_def)

lemma replace_runs_cong:
  "(\<And>c. c \<in> set s \<Longrightarrow> P c = Q c) \<Longrightarrow> replace_runs P r s = replace_runs Q r s"
proof (induction P r s rule: replace_runs.induct)
  case (1 P r)
  show ?case by simp
next
  case (2 P r c cs)
  have d: "dropWhile P cs = dropWhile Q cs"
    using "2.prems" by (intro dropWhile_cong) auto
  show ?case
  proof (cases "P c")
    case True
    then have q: "Q c" using "2.prems" by simp
    have "replace_runs P r (dropWhile P cs) = replace_runs Q r (dropWhile P cs)"
      using "2.prems" by (intro "2.IH"(1)[OF True]) (auto dest: set_dropWhileD)
    then show ?thesis using True q d by simp
  next
    case False
    then have q: "\<not> Q c" using "2.prems" by simp
    have "replace_runs P r cs = replace_runs Q r cs"
      using "2.prems" by (intro "2.IH"(2)[OF False]) auto
    then show ?thesis using False q by simp
  qed
qed

lemma replace_runs_each:
  "replace_runs is_hyphen ''-'' (replace_each (\<lambda>c. \<not> is_file_char c) (CHR ''-'') s)
     = replace_runs (\<lambda>c. \<not> is_alnum_or_underscore c) ''-'' s"
proof (induction "\<lambda>c. \<not> is_alnum_or_underscore c" "''-''" s rule: replace_runs.induct)
  case 1
  show ?case by (simp add: replace_each_def)
next
  case (2 c cs)
  let ?g = "\<lambda>c. if \<not> is_file_char c then CHR ''-'' else c"
  have g: "is_hyphen (?g x) \<longleftrightarrow> \<not> is_alnum_or_underscore x" for x
    by (auto simp: is_hyphen_def is_file_char_iff)
  have dw: "dropWhile is_hyphen (map ?g cs) = map ?g (dropWhile (\<lambda>c. \<not> is_alnum_or_underscore c) cs)"
    by (simp add: dropWhile_map comp_def g)
  show ?case
  proof (cases "is_alnum_or_underscore c")
    case True
    then have "?g c = c" "\<not> is_hyphen c"
      using g[of c] by (auto simp: is_file_char_iff)
    with True "2.hyps"(2) show ?thesis
      by (simp add: replace_each_def)
  next
    case False
    then have "is_hyphen (?g c)" using g[of c] by simp
    with False "2.hyps"(1) dw show ?thesis
      by (simp add: replace_each_def)
  qed
qed

lemma no_double_hyphen_rev: "no_double_hyphen (rev s) = no_double_hyphen s"
  unfolding no_double_hyphen_def successively_rev
  by (rule successively_cong) auto

lemma no_double_hyphen_tl: "no_double_hyphen (c # cs) \<Longrightarrow> no_double_hyphen cs"
  by (cases cs) (simp_all add: no_double_hyphen_def)

lemma dropWhile_single:
  "no_double_hyphen s \<Longrightarrow>
     dropWhile is_hyphen s = (case s of [] \<Rightarrow> [] | c # cs \<Rightarrow> if c = CHR ''-'' then cs else s)"
proof (cases s)
  case Nil
  then show ?thesis by simp
next
  case (Cons c cs)
  assume n: "no_double_hyphen s"
  show ?thesis
  proof (cases cs)
    case Nil
    with Cons show ?thesis by (simp add: is_hyphen_def)
  next
    case (Cons d ds)
    with n \<open>s = c # cs\<close> show ?thesis
      by (auto simp: is_hyphen_def no_double_hyphen_def)
  qed
qed

lemma trim_one_is_trim:
  assumes "no_double_hyphen s"
  shows "trim_one_hyphen s = trim_hyphens s"
proof -
  define s1 where "s1 = (case s of [] \<Rightarrow> [] | c # cs \<Rightarrow> if c = CHR ''-'' then cs else s)"
  have d1: "dropWhile is_hyphen s = s1"
    unfolding s1_def by (rule dropWhile_single[OF assms])
  have n1: "no_double_hyphen s1"
    using assms unfolding s1_def by (auto split: list.splits dest: no_double_hyphen_tl)
  have "dropWhile is_hyphen (rev s1) =
          (case rev s1 of [] \<Rightarrow> [] | c # cs \<Rightarrow> if c = CHR ''-'' then cs else rev s1)"
    by (rule dropWhile_single) (simp add: no_double_hyphen_rev n1)
  also have "\<dots> = rev (if s1 \<noteq> [] \<and> last s1 = CHR ''-'' then butlast s1 else s1)"
  proof (cases s1 rule: rev_cases)
    case Nil
    then show ?thesis by simp
  next
    case (snoc ys y)
    then show ?thesis by simp
  qed
  finally have "trim_hyphens s = (if s1 \<noteq> [] \<and> last s1 = CHR ''-'' then butlast s1 else s1)"
    by (simp add: trim_hyphens_def d1)
  then show ?thesis by (simp add: trim_one_hyphen_def s1_def Let_def)
qed

lemma replace_runs_no_double:
  "P (CHR ''-'') \<Longrightarrow> no_double_hyphen (replace_runs P ''-'' s)"
proof (induction P "''-''" s rule: replace_runs.induct)
  case (1 P)
  show ?case by (simp add: no_double_hyphen_def)
next
  case (2 P c cs)
  show ?case
  proof (cases "P c")
    case True
    have ih: "no_double_hyphen (replace_runs P ''-'' (dropWhile P cs))"
      using "2.hyps"(1)[OF True "2.prems"] .
    show ?thesis
    proof (cases "dropWhile P cs")
      case Nil
      show ?thesis
        by (simp only: replace_runs.simps True if_True Nil) (simp add: no_double_hyphen_def)
    next
      case (Cons d ds)
      then have "\<not> P d" using hd_dropWhile[of P cs] by simp
      then have "d \<noteq> CHR ''-''" using "2.prems" by auto
      with ih True Cons \<open>\<not> P d\<close> show ?thesis
        by (simp add: no_double_hyphen_def)
    qed
  next
    case False
    then have c: "c \<noteq> CHR ''-''" using "2.prems" by auto
    have ih: "no_double_hyphen (replace_runs P ''-'' cs)"
      using "2.hyps"(2)[OF False "2.prems"] .
    with False c show ?thesis
      by (simp add: no_double_hyphen_def successively_Cons)
  qed
qed

lemma sanitizeFileName_rule:
  "sanitizeFileName name = slug_rule is_alnum_or_underscore name"
proof -
  let ?h = "replace_runs (\<lambda>c. \<not> is_alnum_or_underscore c) ''-'' (toLowerCase name)"
  have "no_double_hyphen ?h"
    by (rule replace_runs_no_double) simp
  then have "trim_one_hyphen ?h = trim_hyphens ?h"
    by (rule trim_one_is_trim)
  moreover have "is_hyphen = (\<lambda>c. c = CHR ''-'')"
    by (simp add: is_hyphen_def fun_eq_iff)
  ultimately show ?thesis
    by (simp add: sanitizeFileName_def slug_rule_def replace_runs_each trim_hyphens_def Let_def)
qed

lemma slugify_rule: "slugify t = slug_rule is_alnum t"
proof -
  have "is_hyphen = (\<lambda>c. c = CHR ''-'')"
    by (simp add: is_hyphen_def fun_eq_iff)
  then show ?thesis
    by (simp add: slugify_def slug_rule_def trim_hyphens_def Let_def)
qed

lemma toLowerCase_char_underscore:
  "toLowerCase_char c = CHR ''_'' \<Longrightarrow> c = CHR ''_''"
proof -
  assume a: "toLowerCase_char c = CHR ''_''"
  define n where "n = (of_char c :: nat)"
  show ?thesis
  proof (cases "(65 \<le> n \<and> n \<le> 90) \<or> (192 \<le> n \<and> n \<le> 222 \<and> n \<noteq> 215)")
    case True
    with a have "(char_of (n + 32) :: char) = CHR ''_''"
      by (simp add: toLowerCase_char_def n_def Let_def)
    then have "(of_char (char_of (n + 32) :: char) :: nat) = of_char CHR ''_''" by simp
    then have "(n + 32) mod 256 = 95" by simp
    with True show ?thesis by auto
  next
    case False
    with a show ?thesis by (auto simp: toLowerCase_char_def n_def Let_def split: if_splits)
  qed
qed

lemma sanitizeFileName_no_underscore:
  assumes "CHR ''_'' \<notin> set name"
  shows "sanitizeFileName name = slug_rule is_alnum name"
proof -
  have "CHR ''_'' \<notin> set (toLowerCase name)"
  proof
    assume "CHR ''_'' \<in> set (toLowerCase name)"
    then obtain x where x: "x \<in> set name" "toLowerCase_char x = CHR ''_''"
      by (auto simp: toLowerCase_def)
    from toLowerCase_char_underscore[OF x(2)] x(1) assms show False by simp
  qed
  then have "replace_runs (\<lambda>c. \<not> is_alnum_or_underscore c) ''-'' (toLowerCase name)
      = replace_runs (\<lambda>c. \<not> is_alnum c) ''-'' (toLowerCase name)"
    by (intro replace_runs_cong) (auto simp: is_alnum_or_underscore_def)
  then show ?thesis
    by (simp add: sanitizeFileName_rule slug_rule_def)
qed

text \<open>
  Claim C5, as stated, fails for \<open>sanitizeFileName\<close>: its character class keeps the
  underscore, which the rule of the specification turns into a hyphen.
\<close>

theorem sanitizeFileName_underscore_counterexample:
  "sanitizeFileName ''a_b'' = ''a_b'' \<and> slug_rule is_alnum ''a_b'' = ''a-b''"
  by code_simp

text \<open>
  Claim C5, amended.  The file-name stem is the slug of the problem identifier for the
  class \<open>[a-z0-9_]\<close>: lower-cased, every run of characters outside \<open>[a-z0-9_]\<close>
  replaced by a single hyphen, leading and trailing hyphens trimmed; on an identifier
  without underscore this is the rule for \<open>[a-z0-9]\<close>.  The slug expression of the
  problem-id extractors is the rule for \<open>[a-z0-9]\<close>.  Both turn
  \<open>Two Sum! (Easy)\<close> into \<open>two-sum-easy\<close>.
\<close>

theorem sanitizeFileName_slug:
  "sanitizeFileName name = slug_rule is_alnum_or_underscore name
   \<and> slugify name = slug_rule is_alnum name
   \<and> (CHR ''_'' \<notin> set name \<longrightarrow> sanitizeFileName name = slug_rule is_alnum name)
   \<and> sanitizeFileName ''Two Sum! (Easy)'' = ''two-sum-easy''
   \<and> slugify ''Two Sum! (Easy)'' = ''two-sum-easy''"
proof (intro conjI impI)
  show "sanitizeFileName ''Two Sum! (Easy)'' = ''two-sum-easy''" by code_simp
  show "slugify ''Two Sum! (Easy)'' = ''two-sum-easy''" by code_simp
  show "sanitizeFileName name = slug_rule is_alnum_or_underscore name"
    by (rule sanitizeFileName_rule)
  show "slugify name = slug_rule is_alnum name"
    by (rule slugify_rule)
  show "sanitizeFileName name = slug_rule is_alnum name" if "CHR ''_'' \<notin> set name"
    using that by (rule sanitizeFileName_no_underscore)
qed

theorem sanitizeFileName_slug_witness:
  "CHR ''_'' \<notin> set ''Two Sum! (Easy)''
   \<and> slug_rule is_alnum ''Two Sum! (Easy)'' = ''two-sum-easy''
   \<and> slug_rule is_alnum_or_underscore ''Two Sum! (Easy)'' = ''two-sum-easy''"
proof -
  have h: "CHR ''_'' \<notin> set ''Two Sum! (Easy)''" by simp
  from sanitizeFileName_slug [of "''Two Sum! (Easy)''"] h show ?thesis by metis
qed

section \<open>Properties of the repository client\<close>

subsection \<open>Every thrown value is normalized\<close>

lemma status_code_in: "status_code st \<in> handled_codes"
  by (simp add: status_code_def handled_codes_def split: option.splits)

lemma unknown_handled: "''UNKNOWN_ERROR'' \<in> handled_codes"
  by (simp add: handled_codes_def)

lemma handle_raw:
  assumes "handled_codes \<subseteq> C"
  shows "normalized_in C (handleGitHubError (Raw e))"
proof (cases e)
  case (ErrorObject m st resp)
  show ?thesis
  proof (cases resp)
    case None
    with ErrorObject assms unknown_handled show ?thesis
      by (auto simp: normalized_in_def)
  next
    case (Some a)
    have "status_code (response_status a) \<in> C"
      using assms status_code_in by blast
    with ErrorObject Some show ?thesis
      by (simp add: normalized_in_def)
  qed
next
  case NonError
  with assms unknown_handled show ?thesis by (auto simp: normalized_in_def)
qed

lemma handle_normalized:
  "normalized_in C e \<Longrightarrow> handleGitHubError e = e"
  by (cases e) (simp_all add: normalized_in_def)

lemma handle_any:
  "handled_codes \<subseteq> C \<Longrightarrow> normalized_in C e \<or> (\<exists>j. e = Raw j) \<Longrightarrow> normalized_in C (handleGitHubError e)"
  by (auto simp: handle_raw handle_normalized)

lemma normalized_GitHubError [simp]: "normalized_in C (GitHubError m c) = (c \<in> C)"
  by (simp add: normalized_in_def)

lemma failure_in_simps [simp]:
  "failure_in C (Inl e) = normalized_in C e" "failure_in C (Inr x) = True"
  by (simp_all add: failure_in_def)

lemma checkFileExists_failure:
  "handled_codes \<subseteq> C \<Longrightarrow> failure_in C (fst (checkFileExists octo svc path r))"
  by (auto simp: checkFileExists_def handle_raw split: prod.splits sum.splits)

lemma createFile_failure:
  "handled_codes \<subseteq> C \<Longrightarrow> failure_in C (fst (createFile octo svc path content message r))"
  by (auto simp: createFile_def handle_raw split: prod.splits sum.splits)

lemma updateFile_failure:
  "handled_codes \<subseteq> C \<Longrightarrow> ''INVALID_RESPONSE'' \<in> C \<Longrightarrow>
     failure_in C (fst (updateFile octo svc path content message r))"
  by (auto simp: updateFile_def handle_raw split: prod.splits sum.splits content_data.splits)

lemma getFilePath_failure:
  "''INVALID_PLATFORM'' \<in> C \<Longrightarrow> failure_in C (getFilePath plat pid lang)"
  by (simp add: getFilePath_def Let_def)

lemma failure_inD: "failure_in C res \<Longrightarrow> res = Inl e \<Longrightarrow> normalized_in C e"
  by simp

lemma saveSolution_failure:
  assumes "handled_codes \<subseteq> C" "''INVALID_RESPONSE'' \<in> C" "''INVALID_PLATFORM'' \<in> C"
  shows "failure_in C (fst (saveSolution octo svc plat pid src lang r))"
proof (cases "getFilePath plat pid lang")
  case (Inl e)
  with getFilePath_failure[OF assms(3), of plat pid lang] show ?thesis
    by (simp add: saveSolution_def)
next
  case (Inr path)
  obtain res1 r1 where c: "checkFileExists octo svc path r = (res1, r1)"
    by (cases "checkFileExists octo svc path r") auto
  show ?thesis
  proof (cases res1)
    case (Inl e)
    with checkFileExists_failure[OF assms(1), of octo svc path r] c Inr show ?thesis
      by (simp add: saveSolution_def)
  next
    case ex: (Inr fileExists)
    let ?m = "generateCommitMessage plat pid fileExists"
    let ?w = "if fileExists then updateFile octo svc path src ?m r1 else createFile octo svc path src ?m r1"
    have w: "failure_in C (fst ?w)"
      by (simp add: updateFile_failure[OF assms(1,2)] createFile_failure[OF assms(1)])
    obtain res2 r2 where w2: "?w = (res2, r2)" by (cases ?w) auto
    have "failure_in C res2" using w w2 by simp
    then have "failure_in C (case res2 of Inl e \<Rightarrow> Inl (handleGitHubError e) | Inr u \<Rightarrow> (Inr u :: thrown + unit))"
      by (cases res2) (simp_all add: handle_normalized)
    moreover have "fst (saveSolution octo svc plat pid src lang r)
        = (case res2 of Inl e \<Rightarrow> Inl (handleGitHubError e) | Inr u \<Rightarrow> Inr u)"
      using Inr c ex w2 by (cases res2) (simp_all add: saveSolution_def Let_def)
    ultimately show ?thesis by simp
  qed
qed

lemma failure_inI: "(\<And>e. res = Inl e \<Longrightarrow> normalized_in C e) \<Longrightarrow> failure_in C res"
  by (cases res) simp_all

lemma checkFileExists_Inl:
  "handled_codes \<subseteq> C \<Longrightarrow> checkFileExists octo svc path r = (Inl e, r') \<Longrightarrow> normalized_in C e"
  using checkFileExists_failure[of C octo svc path r] by simp

lemma createFile_Inl:
  "handled_codes \<subseteq> C \<Longrightarrow> createFile octo svc path content message r = (Inl e, r')
     \<Longrightarrow> normalized_in C e"
  using createFile_failure[of C octo svc path content message r] by simp

lemma verifyRepoAccess_Inl:
  assumes "handled_codes \<subseteq> C" "verifyRepoAccess octo svc r = (Inl e, r')"
  shows "normalized_in C e"
  using assms(2) subsetD[OF assms(1) unknown_handled]
  by (auto simp: verifyRepoAccess_def handle_raw[OF assms(1)]
           split: prod.splits sum.splits option.splits)

lemma readme_folders_loop_Inl:
  assumes "handled_codes \<subseteq> C"
  shows "readme_folders_loop octo svc fs r = (Inl e, r') \<Longrightarrow> normalized_in C e"
proof (induction fs arbitrary: r)
  case Nil
  then show ?case by simp
next
  case (Cons f fs)
  obtain name description where f: "f = (name, description)" by (cases f)
  from Cons.prems show ?case
    unfolding f
    by (auto simp: Let_def split: prod.splits sum.splits if_splits
             dest: checkFileExists_Inl[OF assms] createFile_Inl[OF assms] Cons.IH)
qed

lemma initializeFolders_gitkeep_Inl:
  assumes "handled_codes \<subseteq> C"
  shows "initializeFolders_gitkeep octo svc fs r = (Inl e, r') \<Longrightarrow> normalized_in C e"
proof (induction fs arbitrary: r)
  case Nil
  then show ?case by simp
next
  case (Cons f fs)
  from Cons.prems show ?case
    by (auto simp: Let_def split: prod.splits sum.splits if_splits
             dest: checkFileExists_Inl[OF assms] createFile_Inl[OF assms] Cons.IH)
qed

lemma initializeFolders_readme_Inl:
  assumes "handled_codes \<subseteq> C" "initializeFolders_readme octo svc r = (Inl e, r')"
  shows "normalized_in C e"
  using assms(2)
  by (auto simp: initializeFolders_readme_def handle_normalized[of C]
           split: prod.splits sum.splits if_splits
           dest: checkFileExists_Inl[OF assms(1)] createFile_Inl[OF assms(1)]
                 readme_folders_loop_Inl[OF assms(1)])

lemma createRepositoryWithStructure_Inl:
  assumes "handled_codes \<subseteq> C" "''REPO_ACCESS_ERROR'' \<in> C"
    "createRepositoryWithStructure octo svc repoName description r = (Inl e, svc', r')"
  shows "normalized_in C e"
  using assms(3,2)
  by (auto simp: createRepositoryWithStructure_def Let_def handle_raw[OF assms(1)]
                 handle_normalized[of C]
           split: prod.splits sum.splits if_splits option.splits
           dest: initializeFolders_readme_Inl[OF assms(1)])

lemma createNewRepo_Inl:
  assumes "handled_codes \<subseteq> C" "''REPO_CREATE_ERROR'' \<in> C" "''REPO_EXISTS'' \<in> C"
    "createNewRepo octo svc name r = (Inl e, svc', r')"
  shows "normalized_in C e"
  using assms(4,2,3)
  by (auto simp: createNewRepo_def Let_def handle_raw[OF assms(1)] handle_normalized[of C]
           split: prod.splits sum.splits if_splits option.splits
           dest: verifyRepoAccess_Inl[OF assms(1)])

lemma setupRepo_Inl:
  assumes "handled_codes \<subseteq> C" "''REPO_CREATE_ERROR'' \<in> C" "''REPO_EXISTS'' \<in> C"
    "''PERMISSION_ERROR'' \<in> C"
    "setupRepo octo svc repoName isNew r = (Inl e, svc', r')"
  shows "normalized_in C e"
proof -
  define prepared where "prepared =
            (if isNew then createNewRepo octo svc repoName r
             else (case verifyRepoAccess octo svc r of
                     (Inl e, r') \<Rightarrow> (Inl e, svc, r')
                   | (Inr hasAccess, r') \<Rightarrow>
                       if \<not> hasAccess
                       then (Inl (GitHubError ''Insufficient permissions for repository''
                                   ''PERMISSION_ERROR''), svc, r')
                       else (Inr (), svc, r')))"
  obtain p svc1 r1 where p: "prepared = (p, svc1, r1)" by (cases prepared) auto
  have pn: "normalized_in C e0" if "p = Inl e0" for e0
    using p that assms(4) unfolding prepared_def
    by (auto split: if_splits prod.splits sum.splits
             dest: verifyRepoAccess_Inl[OF assms(1)] createNewRepo_Inl[OF assms(1,2,3)])
  show ?thesis
  proof (cases p)
    case (Inl e0)
    then have "e = handleGitHubError e0"
      using assms(5) p unfolding setupRepo_def prepared_def[symmetric] by (simp add: Let_def)
    with pn[OF Inl] show ?thesis by (simp add: handle_normalized)
  next
    case (Inr u)
    obtain q r2 where q: "initializeFolders_gitkeep octo svc1 [''leetcode'', ''codeforces'', ''codechef''] r1 = (q, r2)"
      by (cases "initializeFolders_gitkeep octo svc1 [''leetcode'', ''codeforces'', ''codechef''] r1") auto
    have s: "setupRepo octo svc repoName isNew r =
        (case q of Inl e \<Rightarrow> (Inl (handleGitHubError e), svc1, r2) | Inr u \<Rightarrow> (Inr u, svc1, r2))"
      unfolding setupRepo_def prepared_def[symmetric] Let_def p Inr
      by (simp only: prod.case sum.case q split: sum.splits)
    show ?thesis
    proof (cases q)
      case (Inl e1)
      with s assms(5) have "e = handleGitHubError e1" by simp
      moreover have "normalized_in C e1"
        by (rule initializeFolders_gitkeep_Inl[OF assms(1) q[unfolded Inl]])
      ultimately show ?thesis by (simp add: handle_normalized)
    next
      case (Inr v)
      with s assms(5) show ?thesis by simp
    qed
  qed
qed

subsection \<open>The closed set of codes, unsupported platforms\<close>

lemma handled_sub_spec: "handled_codes \<subseteq> spec_codes"
  by (simp add: handled_codes_def spec_codes_def)

lemma handled_sub_save: "handled_codes \<subseteq> save_codes"
  using handled_sub_spec by (auto simp: save_codes_def)

text \<open>
  Claim C9, amended.  Whatever the transport answers, every value thrown by the
  constructor, by both repository-setup operations and by the access check is a
  \<open>GitHubError\<close> whose code is in the closed set of the specification, and every
  value thrown by \<open>saveSolution\<close> is a \<open>GitHubError\<close> whose code is in that
  set or is \<open>INVALID_PLATFORM\<close> or \<open>INVALID_RESPONSE\<close>; none is a raw transport
  error.
\<close>

theorem client_errors_normalized:
  "failure_in spec_codes (new_GitHubService cfg)
   \<and> failure_in spec_codes (fst (verifyRepoAccess octo svc r))
   \<and> failure_in spec_codes (fst (setupRepo octo svc repoName isNew r))
   \<and> failure_in spec_codes (fst (createRepositoryWithStructure octo svc repoName description r))
   \<and> failure_in save_codes (fst (saveSolution octo svc plat pid src lang r))"
proof (intro conjI)
  show "failure_in spec_codes (new_GitHubService cfg)"
    by (simp add: new_GitHubService_def spec_codes_def)
  show "failure_in spec_codes (fst (verifyRepoAccess octo svc r))"
  proof (rule failure_inI)
    fix e assume "fst (verifyRepoAccess octo svc r) = Inl e"
    then obtain r' where "verifyRepoAccess octo svc r = (Inl e, r')"
      by (cases "verifyRepoAccess octo svc r") auto
    then show "normalized_in spec_codes e"
      by (rule verifyRepoAccess_Inl[OF handled_sub_spec])
  qed
  show "failure_in spec_codes (fst (setupRepo octo svc repoName isNew r))"
  proof (rule failure_inI)
    fix e assume "fst (setupRepo octo svc repoName isNew r) = Inl e"
    then obtain svc' r' where "setupRepo octo svc repoName isNew r = (Inl e, svc', r')"
      by (cases "setupRepo octo svc repoName isNew r") auto
    then show "normalized_in spec_codes e"
      by (rule setupRepo_Inl[OF handled_sub_spec, rotated -1]) (simp_all add: spec_codes_def)
  qed
  show "failure_in spec_codes (fst (createRepositoryWithStructure octo svc repoName description r))"
  proof (rule failure_inI)
    fix e assume "fst (createRepositoryWithStructure octo svc repoName description r) = Inl e"
    then obtain svc' r' where
      "createRepositoryWithStructure octo svc repoName description r = (Inl e, svc', r')"
      by (cases "createRepositoryWithStructure octo svc repoName description r") auto
    then show "normalized_in spec_codes e"
      by (rule createRepositoryWithStructure_Inl[OF handled_sub_spec, rotated -1])
         (simp_all add: spec_codes_def)
  qed
  show "failure_in save_codes (fst (saveSolution octo svc plat pid src lang r))"
    by (rule saveSolution_failure[OF handled_sub_save]) (simp_all add: save_codes_def)
qed

lemma getFilePath_unsupported:
  "\<not> supported plat \<Longrightarrow>
     getFilePath plat pid lang = Inl (GitHubError (''Unsupported platform: '' @ plat) ''INVALID_PLATFORM'')"
  by (simp add: getFilePath_def supported_def Let_def)

lemma getFilePath_supported:
  "supported plat \<Longrightarrow> getFilePath plat pid lang = Inr (solution_path plat pid lang)"
  by (auto simp: getFilePath_def supported_def solution_path_def Let_def)

lemma unknown_unsupported: "\<not> supported ''unknown''"
  unfolding supported_def by code_simp

lemma detectPlatform_cases:
  "detectPlatform host \<in> {''leetcode'', ''codeforces'', ''codechef'', ''unknown''}"
  by (simp add: detectPlatform_def)

lemma supported_literals: "supported ''leetcode''" "supported ''codeforces''" "supported ''codechef''"
  unfolding supported_def by code_simp+

text \<open>
  Claim C10.  For a platform whose lower-cased name is none of \<open>leetcode\<close>,
  \<open>codeforces\<close>, \<open>codechef\<close>, \<open>saveSolution\<close> throws a \<open>GitHubError\<close>
  with code \<open>INVALID_PLATFORM\<close> and the remote state is the one it started from,
  for every transport: no endpoint has been called.  The platform value that
  \<open>detectPlatform\<close> gives to an unrecognized host is \<open>unknown\<close>, which is such a
  platform.
\<close>

theorem saveSolution_invalid_platform:
  "(\<not> supported plat \<longrightarrow>
      saveSolution octo svc plat pid src lang r =
        (Inl (GitHubError (''Unsupported platform: '' @ plat) ''INVALID_PLATFORM''), r))
   \<and> (detectPlatform host \<noteq> ''leetcode'' \<and> detectPlatform host \<noteq> ''codeforces''
        \<and> detectPlatform host \<noteq> ''codechef'' \<longrightarrow>
      detectPlatform host = ''unknown'' \<and>
      saveSolution octo svc (detectPlatform host) pid src lang r =
        (Inl (GitHubError ''Unsupported platform: unknown'' ''INVALID_PLATFORM''), r))"
proof (intro conjI impI)
  assume "\<not> supported plat"
  then show "saveSolution octo svc plat pid src lang r =
        (Inl (GitHubError (''Unsupported platform: '' @ plat) ''INVALID_PLATFORM''), r)"
    by (simp add: saveSolution_def getFilePath_unsupported)
next
  assume a: "detectPlatform host \<noteq> ''leetcode'' \<and> detectPlatform host \<noteq> ''codeforces''
        \<and> detectPlatform host \<noteq> ''codechef''"
  then show u: "detectPlatform host = ''unknown''"
    using detectPlatform_cases[of host] by auto
  show "saveSolution octo svc (detectPlatform host) pid src lang r =
        (Inl (GitHubError ''Unsupported platform: unknown'' ''INVALID_PLATFORM''), r)"
    unfolding u by (simp add: saveSolution_def getFilePath_unsupported[OF unknown_unsupported])
qed

theorem saveSolution_invalid_platform_witness:
  "\<not> supported ''HackerRank''
   \<and> saveSolution (store_octokit (\<lambda>c. c)) a_service ''HackerRank'' ''two-sum'' ''return 0'' ''python''
        empty_remote
      = (Inl (GitHubError ''Unsupported platform: HackerRank'' ''INVALID_PLATFORM''), empty_remote)
   \<and> detectPlatform ''www.hackerrank.com'' = ''unknown''
   \<and> calls (snd (saveSolution (store_octokit (\<lambda>c. c)) a_service
        (detectPlatform ''www.hackerrank.com'') ''two-sum'' ''return 0'' ''python'' empty_remote)) = []"
proof -
  have h: "\<not> supported ''HackerRank''" unfolding supported_def by code_simp
  have d: "detectPlatform ''www.hackerrank.com'' = ''unknown''" by code_simp
  from saveSolution_invalid_platform
         [of "''HackerRank''" "store_octokit (\<lambda>c. c)" a_service "''two-sum''" "''return 0''"
             "''python''" empty_remote "''www.hackerrank.com''"]
  show ?thesis using h d by (simp add: empty_remote_def)
qed

text \<open>
  Claim C9, as stated, fails: for an unsupported platform \<open>saveSolution\<close> throws a
  \<open>GitHubError\<close> whose code is outside the closed set.
\<close>

theorem saveSolution_code_counterexample:
  "fst (saveSolution (store_octokit (\<lambda>c. c)) a_service ''unknown'' ''two-sum'' ''return 0''
          ''python'' empty_remote)
     = Inl (GitHubError ''Unsupported platform: unknown'' ''INVALID_PLATFORM'')
   \<and> ''INVALID_PLATFORM'' \<notin> spec_codes
   \<and> \<not> failure_in spec_codes
         (fst (saveSolution (store_octokit (\<lambda>c. c)) a_service ''unknown'' ''two-sum''
                 ''return 0'' ''python'' empty_remote))"
  by (simp add: saveSolution_def getFilePath_unsupported[OF unknown_unsupported] spec_codes_def
        failure_in_def normalized_in_def)

lemma saveSolution_invalid_response_example:
  "fst (saveSolution listing_octokit a_service ''leetcode'' ''two-sum'' ''return 0'' ''python'' ())
     = Inl (GitHubError ''Invalid file data received from GitHub'' ''INVALID_RESPONSE'')"
  by (simp add: saveSolution_def getFilePath_supported supported_literals checkFileExists_def
        updateFile_def listing_octokit_def)

theorem client_errors_normalized_witness:
  "normalized_in save_codes
     (GitHubError ''Invalid file data received from GitHub'' ''INVALID_RESPONSE'')
   \<and> failure_in spec_codes (new_GitHubService \<lparr>token = '''', cfg_owner = ''o'', cfg_repo = ''r''\<rparr>)
   \<and> new_GitHubService \<lparr>token = '''', cfg_owner = ''o'', cfg_repo = ''r''\<rparr>
        = Inl (GitHubError ''Authentication token is required'' ''AUTH_REQUIRED'')"
  using client_errors_normalized
          [of "\<lparr>token = '''', cfg_owner = ''o'', cfg_repo = ''r''\<rparr>" listing_octokit a_service "()"
              "''solutions''" True None "''leetcode''" "''two-sum''" "''return 0''" "''python''"]
        saveSolution_invalid_response_example
  by (simp add: new_GitHubService_def)

subsection \<open>Saving twice\<close>






lemma map_fst_replace_content [simp]: "map fst (replace_content p c fs) = map fst fs"
  by (induction fs) (auto simp: replace_content_def)

lemma fst_set_replace_content [simp]: "fst ` set (replace_content p c fs) = fst ` set fs"
proof -
  have "set (map fst (replace_content p c fs)) = set (map fst fs)" by simp
  then show ?thesis by (simp only: set_map)
qed






section \<open>Properties of the submission detector\<close>

lemma build_record_platform:
  "build_record plat a b c d t = Inr r \<Longrightarrow> platform r = plat"
  by (auto simp: build_record_def split: sum.splits)

lemma build_record_code_fail:
  "isl b \<Longrightarrow> isl (build_record plat a b c d t)"
  by (auto simp: build_record_def split: sum.splits)

lemma build_record_Inr_iff:
  "\<not> isl (build_record plat a b c d t) \<longleftrightarrow> \<not> isl a \<and> \<not> isl b \<and> \<not> isl c"
  by (auto simp: build_record_def split: sum.splits)

lemma catch_total:
  "\<exists>d. (case build_record plat a b c df t of
           Inl _ \<Rightarrow> Inr (fallback_record plat p) | Inr d \<Rightarrow> Inr d)
          = (Inr d :: js_error + SubmissionData)
        \<and> platform d = plat \<and> (isl b \<longrightarrow> d = fallback_record plat p)"
  using build_record_code_fail[of b plat a c df t]
  by (cases "build_record plat a b c df t")
     (auto simp: fallback_record_def dest: build_record_platform)

lemma extract_total:
  assumes "plat \<in> {''leetcode'', ''codeforces'', ''codechef''}"
  shows "\<exists>d. extractSubmissionData plat p = Inr d \<and> platform d = plat
            \<and> (isl (code_extractor plat p) \<longrightarrow> d = fallback_record plat p)"
proof -
  from assms consider "plat = ''leetcode''" | "plat = ''codeforces''" | "plat = ''codechef''"
    by auto
  then show ?thesis
  proof cases
    case 1
    show ?thesis
      unfolding 1
      using catch_total[where plat = "''leetcode''" and a = "extractLeetCodeProblemId p" and b = "extractLeetCodeCode p" and c = "extractLeetCodeLanguage p" and df = "extractLeetCodeDifficulty p" and t = "extractLeetCodeTitle p" and p = p]
      by (simp add: extractSubmissionData_def code_extractor_def)
  next
    case 2
    show ?thesis
      unfolding 2
      using catch_total[where plat = "''codeforces''" and a = "extractCodeforceProblemId p" and b = "extractCodeforceCode p" and c = "extractCodeforceLanguage p" and df = None and t = "extractCodeforceTitle p" and p = p]
      by (simp add: extractSubmissionData_def code_extractor_def)
  next
    case 3
    show ?thesis
      unfolding 3
      using catch_total[where plat = "''codechef''" and a = "extractCodechefProblemId p" and b = "extractCodechefCode p" and c = "extractCodechefLanguage p" and df = None and t = "extractCodechefTitle p" and p = p]
      by (simp add: extractSubmissionData_def code_extractor_def)
  qed
qed

lemma success_platform:
  assumes "isSuccessfulSubmission plat p"
  shows "plat \<in> {''leetcode'', ''codeforces'', ''codechef''}"
proof (rule ccontr)
  assume "plat \<notin> {''leetcode'', ''codeforces'', ''codechef''}"
  then have "plat \<noteq> ''leetcode''" "plat \<noteq> ''codeforces''" "plat \<noteq> ''codechef''"
    by auto
  then have "\<not> isSuccessfulSubmission plat p"
    unfolding isSuccessfulSubmission_def by (simp only: if_False not_False_eq_True)
  with assms show False by simp
qed

lemma on_mutation_length:
  "length (on_mutation plat p) = (if isSuccessfulSubmission plat p then 1 else 0)"
proof (cases "isSuccessfulSubmission plat p")
  case True
  from extract_total[OF success_platform[OF True], of p] obtain d where
    "extractSubmissionData plat p = Inr d" by blast
  with True show ?thesis by (simp add: on_mutation_def)
next
  case False
  then show ?thesis by (simp add: on_mutation_def)
qed

lemma on_mutation_basic_length:
  "length (on_mutation_basic plat p) =
     (if isSuccessfulSubmission_basic plat p \<and> \<not> isl (extractSubmissionData_basic plat p)
      then 1 else 0)"
  by (auto simp: on_mutation_basic_def split: sum.splits)

lemma length_concat_map_indicator:
  "(\<And>x. length (f x) = (if P x then 1 else 0)) \<Longrightarrow>
     length (concat (map f xs)) = length (filter P xs)"
  by (induction xs) auto

lemma pid_lc: "\<not> isl (extractLeetCodeProblemId p)"
  by (simp add: extractLeetCodeProblemId_def Let_def)

lemma pid_from: "\<not> isl (problem_id_from lit sel p)"
  by (simp add: problem_id_from_def split: option.splits)

lemma problem_id_never_fails: "\<not> isl (problem_id_extractor plat p)"
  by (simp add: problem_id_extractor_def pid_lc pid_from
        extractCodeforceProblemId_def extractCodechefProblemId_def)

lemma trim_Nil [simp]: "trim [] = []"
  by (simp add: trim_def)

lemma synthetic_leetcode_id:
  assumes "title_strategies_fail p"
  shows "extractLeetCodeProblemId p
           = Inr (slugify (''leetcode-problem-'' @ show_int (clock p)))"
proof -
  from assms have t0: "first_text p titleSelectors = []"
    and u: "match_after ''/problems/'' (\<lambda>c. c \<noteq> CHR ''/'') (loc_pathname p) = None"
    and t: "trim (takeWhile (\<lambda>c. c \<noteq> CHR ''-'') (document_title p)) = []"
    by (simp_all add: title_strategies_fail_def)
  show ?thesis
  proof (cases "takeWhile (\<lambda>c. c \<noteq> CHR ''-'') (document_title p)")
    case Nil
    then show ?thesis
      by (simp add: extractLeetCodeProblemId_def Let_def t0 u)
  next
    case (Cons a as)
    with t have "trim (a # as) = []" by simp
    with Cons show ?thesis
      by (simp add: extractLeetCodeProblemId_def Let_def t0 u)
  qed
qed

lemma unknown_id:
  "id_strategies_fail lit sel p \<Longrightarrow> problem_id_from lit sel p = Inr ''unknown''"
  by (auto simp: id_strategies_fail_def problem_id_from_def split: option.splits)

lemma problem_id_can_be_empty:
  "extractLeetCodeProblemId
     (bare_page\<lparr>dom := [(''.title-text'', Element ''???'' None None [])]\<rparr>) = Inr ''''"
  by code_simp

text \<open>
  Claim C1, as stated, fails: with the success marker present and the page unchanged
  across three consecutive mutation batches, three records are forwarded, by the extended
  content script and by the basic one.
\<close>

theorem observer_level_triggered_counterexample:
  "isSuccessfulSubmission (detectPlatform ''leetcode.com'') accepted_page
   \<and> length (SubmissionDetector ''leetcode.com'' [accepted_page, accepted_page, accepted_page]) = 3
   \<and> length (SubmissionDetector_basic ''leetcode.com''
               [accepted_page, accepted_page, accepted_page]) = 3"
  by code_simp

text \<open>
  Claim C1, amended.  The observer is level-triggered: in a page session it forwards one
  record for every mutation batch on which \<open>isSuccessfulSubmission\<close> holds (in the
  basic content script: for every such batch on which extraction does not throw).  So
  while the success marker stays present, \<open>n\<close> mutation batches forward \<open>n\<close>
  records.
\<close>

theorem observer_forwards_every_successful_batch:
  "length (SubmissionDetector host batches)
     = length (filter (isSuccessfulSubmission (detectPlatform host)) batches)
   \<and> length (SubmissionDetector_basic host batches)
     = length (filter (\<lambda>p. isSuccessfulSubmission_basic (detectPlatform host) p
                            \<and> \<not> isl (extractSubmissionData_basic (detectPlatform host) p))
                 batches)
   \<and> (isSuccessfulSubmission (detectPlatform host) p \<longrightarrow>
        length (SubmissionDetector host (replicate n p)) = n)"
proof (intro conjI impI)
  show l: "length (SubmissionDetector host batches)
     = length (filter (isSuccessfulSubmission (detectPlatform host)) batches)" for batches
    unfolding SubmissionDetector_def
    by (rule length_concat_map_indicator) (rule on_mutation_length)
  show "length (SubmissionDetector_basic host batches)
     = length (filter (\<lambda>p. isSuccessfulSubmission_basic (detectPlatform host) p
                            \<and> \<not> isl (extractSubmissionData_basic (detectPlatform host) p))
                 batches)"
    unfolding SubmissionDetector_basic_def
    by (rule length_concat_map_indicator) (rule on_mutation_basic_length)
  assume "isSuccessfulSubmission (detectPlatform host) p"
  then show "length (SubmissionDetector host (replicate n p)) = n"
    by (simp add: l)
qed

theorem observer_forwards_every_successful_batch_witness:
  "isSuccessfulSubmission (detectPlatform ''leetcode.com'') accepted_page
   \<and> length (SubmissionDetector ''leetcode.com'' (replicate 3 accepted_page)) = 3"
proof -
  have h: "isSuccessfulSubmission (detectPlatform ''leetcode.com'') accepted_page"
    by code_simp
  from observer_forwards_every_successful_batch [of "''leetcode.com''" "[]" accepted_page 3] h
  show ?thesis by simp
qed

text \<open>
  Claim C4, as stated, fails: on a LeetCode page with the success marker and no code
  editor every strategy of the code extractor fails, and the extended content script
  still forwards a record, with the placeholder code.
\<close>

theorem extraction_abort_counterexample:
  "isSuccessfulSubmission (detectPlatform ''leetcode.com'') no_editor_page
   \<and> extractLeetCodeCode no_editor_page = Inl (Error ''No code content found'')
   \<and> map code (SubmissionDetector ''leetcode.com'' [no_editor_page])
       = [''// Code extraction failed'']"
  by code_simp

text \<open>
  Claim C4, amended.  In the extended content script a failing extractor never aborts
  the record: on each of the three platforms \<open>extractSubmissionData\<close> returns a
  record; when every strategy of the code extractor fails the record carries the
  placeholder code \<open>// Code extraction failed\<close>; and the observer forwards the
  record whenever the success signal holds.  The problem-id extractors never throw:
  when every strategy of theirs comes up empty, the LeetCode extractor returns the slug
  of the time-based identifier \<open>leetcode-problem-\<close> followed by the clock reading,
  and the Codeforces and CodeChef extractors return \<open>unknown\<close>.  In the basic content
  script, on LeetCode, a record is forwarded exactly when the success signal holds and
  none of the three extractors (problem id, code, language) throws.
\<close>

theorem extraction_never_aborts:
  "(plat \<in> {''leetcode'', ''codeforces'', ''codechef''} \<longrightarrow>
      (\<exists>d. extractSubmissionData plat p = Inr d \<and> platform d = plat
          \<and> (isl (code_extractor plat p) \<longrightarrow> code d = ''// Code extraction failed'')
          \<and> (isSuccessfulSubmission plat p \<longrightarrow> on_mutation plat p = [d])))
   \<and> \<not> isl (problem_id_extractor plat p)
   \<and> (title_strategies_fail p \<longrightarrow>
        extractLeetCodeProblemId p
          = Inr (slugify (''leetcode-problem-'' @ show_int (clock p))))
   \<and> (id_strategies_fail ''problem/'' ''.title'' p \<longrightarrow>
        extractCodeforceProblemId p = Inr ''unknown'')
   \<and> (id_strategies_fail ''problems/'' ''.problem-title'' p \<longrightarrow>
        extractCodechefProblemId p = Inr ''unknown'')
   \<and> (on_mutation_basic ''leetcode'' p \<noteq> [] \<longleftrightarrow>
        isSuccessfulSubmission_basic ''leetcode'' p
        \<and> \<not> isl (extractLeetCodeProblemId_basic p)
        \<and> \<not> isl (extractLeetCodeCode_basic p)
        \<and> \<not> isl (extractLeetCodeLanguage_basic p))"
proof (intro conjI impI)
  assume a: "plat \<in> {''leetcode'', ''codeforces'', ''codechef''}"
  from extract_total[OF a, of p] obtain d where
    d: "extractSubmissionData plat p = Inr d" "platform d = plat"
       "isl (code_extractor plat p) \<longrightarrow> d = fallback_record plat p"
    by blast
  have "isl (code_extractor plat p) \<longrightarrow> code d = ''// Code extraction failed''"
    using d(3) by (auto simp: fallback_record_def)
  moreover have "isSuccessfulSubmission plat p \<longrightarrow> on_mutation plat p = [d]"
    using d(1) by (simp add: on_mutation_def)
  ultimately show "\<exists>d. extractSubmissionData plat p = Inr d \<and> platform d = plat
          \<and> (isl (code_extractor plat p) \<longrightarrow> code d = ''// Code extraction failed'')
          \<and> (isSuccessfulSubmission plat p \<longrightarrow> on_mutation plat p = [d])"
    using d(1,2) by blast
next
  show "\<not> isl (problem_id_extractor plat p)" by (rule problem_id_never_fails)
next
  assume "title_strategies_fail p"
  then show "extractLeetCodeProblemId p
          = Inr (slugify (''leetcode-problem-'' @ show_int (clock p)))"
    by (rule synthetic_leetcode_id)
next
  assume "id_strategies_fail ''problem/'' ''.title'' p"
  then show "extractCodeforceProblemId p = Inr ''unknown''"
    unfolding extractCodeforceProblemId_def by (rule unknown_id)
next
  assume "id_strategies_fail ''problems/'' ''.problem-title'' p"
  then show "extractCodechefProblemId p = Inr ''unknown''"
    unfolding extractCodechefProblemId_def by (rule unknown_id)
next
  have "on_mutation_basic ''leetcode'' p \<noteq> [] \<longleftrightarrow>
      isSuccessfulSubmission_basic ''leetcode'' p
      \<and> \<not> isl (extractSubmissionData_basic ''leetcode'' p)"
    by (auto simp: on_mutation_basic_def split: sum.splits)
  then show "on_mutation_basic ''leetcode'' p \<noteq> [] \<longleftrightarrow>
        isSuccessfulSubmission_basic ''leetcode'' p
        \<and> \<not> isl (extractLeetCodeProblemId_basic p)
        \<and> \<not> isl (extractLeetCodeCode_basic p)
        \<and> \<not> isl (extractLeetCodeLanguage_basic p)"
    by (simp add: extractSubmissionData_basic_def build_record_Inr_iff)
qed

theorem extraction_never_aborts_witness:
  "''leetcode'' \<in> {''leetcode'', ''codeforces'', ''codechef''}
   \<and> isl (code_extractor ''leetcode'' no_editor_page)
   \<and> isSuccessfulSubmission ''leetcode'' no_editor_page
   \<and> map code (on_mutation ''leetcode'' no_editor_page) = [''// Code extraction failed'']
   \<and> on_mutation_basic ''leetcode'' no_editor_page = []
   \<and> title_strategies_fail bare_page
   \<and> extractLeetCodeProblemId bare_page = Inr ''leetcode-problem-1700000000000''
   \<and> id_strategies_fail ''problem/'' ''.title'' bare_page
   \<and> extractCodeforceProblemId bare_page = Inr ''unknown''
   \<and> id_strategies_fail ''problems/'' ''.problem-title'' bare_page
   \<and> extractCodechefProblemId bare_page = Inr ''unknown''"
proof -
  have h: "isl (code_extractor ''leetcode'' no_editor_page)"
          "isSuccessfulSubmission ''leetcode'' no_editor_page"
          "isl (extractLeetCodeCode_basic no_editor_page)"
    by code_simp+
  have g: "title_strategies_fail bare_page"
          "id_strategies_fail ''problem/'' ''.title'' bare_page"
          "id_strategies_fail ''problems/'' ''.problem-title'' bare_page"
    by code_simp+
  have v: "slugify (''leetcode-problem-'' @ show_int (clock bare_page))
             = ''leetcode-problem-1700000000000''"
    by code_simp
  from extraction_never_aborts [of "''leetcode''" no_editor_page] h
  have first: "map code (on_mutation ''leetcode'' no_editor_page) = [''// Code extraction failed'']
      \<and> on_mutation_basic ''leetcode'' no_editor_page = []"
    by auto
  from extraction_never_aborts [of "''leetcode''" bare_page] g v
  have second: "extractLeetCodeProblemId bare_page = Inr ''leetcode-problem-1700000000000''
      \<and> extractCodeforceProblemId bare_page = Inr ''unknown''
      \<and> extractCodechefProblemId bare_page = Inr ''unknown''"
    by simp
  show ?thesis using h g first second by simp
qed

end

